theory Spec2Isabelle
  imports Complex_Main
begin

section \<open>Strings, numbers and time\<close>

text \<open>
  The mirror engine is \<^verbatim>\<open>BybitSyncManager\<close> in
  \<^verbatim>\<open>src/hyperliquid_monitor/bybit_sync.py\<close>. Python strings are modelled as
  \<open>string\<close>, Python floats as exact rationals (the properties below are about
  decision order, comparisons against literal thresholds and bookkeeping, none about
  rounding), and a \<^verbatim>\<open>datetime\<close> as a whole number of microseconds.
\<close>

definition startswith :: "string \<Rightarrow> string \<Rightarrow> bool" where
  "startswith s p = (take (length p) s = p)"

definition endswith :: "string \<Rightarrow> string \<Rightarrow> bool" where
  "endswith s p = (length p \<le> length s \<and> drop (length s - length p) s = p)"

text \<open>Python's \<^verbatim>\<open>sub in s\<close> on strings.\<close>

fun str_in :: "string \<Rightarrow> string \<Rightarrow> bool" where
  "str_in sub [] = (sub = [])"
| "str_in sub (c # cs) = (startswith (c # cs) sub \<or> str_in sub cs)"

text \<open>\<^verbatim>\<open>str.lower()\<close> and \<^verbatim>\<open>str.upper()\<close> on the ASCII letters; other characters are kept.\<close>

definition lower_char :: "char \<Rightarrow> char" where
  "lower_char c =
     (case map_of (zip ''ABCDEFGHIJKLMNOPQRSTUVWXYZ'' ''abcdefghijklmnopqrstuvwxyz'') c of
        Some d \<Rightarrow> d | None \<Rightarrow> c)"

definition upper_char :: "char \<Rightarrow> char" where
  "upper_char c =
     (case map_of (zip ''abcdefghijklmnopqrstuvwxyz'' ''ABCDEFGHIJKLMNOPQRSTUVWXYZ'') c of
        Some d \<Rightarrow> d | None \<Rightarrow> c)"

definition lower :: "string \<Rightarrow> string" where
  "lower s = map lower_char s"

definition upper :: "string \<Rightarrow> string" where
  "upper s = map upper_char s"

text \<open>\<^verbatim>\<open>str.capitalize()\<close>: first character upper case, the rest lower case.\<close>

definition capitalize :: "string \<Rightarrow> string" where
  "capitalize s = (case s of [] \<Rightarrow> [] | c # cs \<Rightarrow> upper_char c # lower cs)"

text \<open>\<^verbatim>\<open>symbol.replace('USDT', '')\<close>: every occurrence, left to right, is removed.\<close>

fun replace_USDT :: "string \<Rightarrow> string" where
  "replace_USDT [] = []"
| "replace_USDT (c # cs) =
     (if startswith (c # cs) ''USDT'' then replace_USDT (drop 3 cs) else c # replace_USDT cs)"

type_synonym datetime = int

text \<open>\<^verbatim>\<open>timedelta.total_seconds()\<close> of a difference of two datetimes.\<close>

definition total_seconds :: "int \<Rightarrow> rat" where
  "total_seconds d = of_int d / 1000000"

section \<open>Data of the destination venue and of the engine\<close>

text \<open>A position as \<^verbatim>\<open>query_positions\<close> returns it: the keys the engine reads.\<close>

record position =
  pos_symbol :: string
  pos_side :: string
  pos_size :: rat

text \<open>An open order of the venue: \<^verbatim>\<open>symbol\<close>, \<^verbatim>\<open>side\<close>, \<^verbatim>\<open>price\<close>, \<^verbatim>\<open>orderId\<close>.\<close>

record open_order =
  ord_symbol :: string
  ord_side :: string
  ord_price :: rat
  ord_orderId :: string

text \<open>
  An entry of \<^verbatim>\<open>_forced_liquidations\<close>: \<^verbatim>\<open>time\<close>, \<^verbatim>\<open>type\<close>
  (\<^verbatim>\<open>'follow'\<close> or \<^verbatim>\<open>'forced'\<close>), the reason (a fixed text per writer, kept
  as a tag) and the sizes stored beside them.
\<close>

datatype liq_reason = ReduceBelowMinQty | FollowTraderClose | PositionWithinMinQty

record liquidation =
  liq_time :: datetime
  liq_type :: string
  liq_reason :: liq_reason
  liq_sizes :: "(string \<times> rat) list"

text \<open>The key \<^verbatim>\<open>f"{symbol}_{side}"\<close>.\<close>

definition pos_key :: "string \<Rightarrow> string \<Rightarrow> string" where
  "pos_key symbol side = symbol @ ''_'' @ side"


section \<open>Collaborators, the trace and the engine's state\<close>

text \<open>
  The venue adapter, the position calculator, the reverse handler, the TWAP manager, the
  notifier and the status column of the local store are collaborators of the engine whose
  code is outside this file. Every call the engine makes to one of them is recorded as an
  \<open>event\<close>; the list of events, latest first, is the \<open>trace\<close> of a run.
  Notification texts are fixed per call site and are kept as tags.
\<close>

datatype close_arg = IsHalf bool | CustomQty rat

datatype close_type = FullClose | Reduce

datatype title =
    ReduceExecutedAsFullClose
  | FullCloseSucceeded
  | ReduceSucceeded
  | CloseFailed close_type
  | ForceCloseAllDone
  | ForceCloseFailed
  | ForceCloseException
  | AccidentalFullClose
  | ReduceFullCloseSucceeded
  | ReduceCloseFailed

datatype failure_reason = AmountBelowMinimum | OrderSubmitFailed | ExceptionRaised

datatype event =
    QueryPositions "bool option"
  | ClosePosition position close_arg
  | SetMaxLeverage string bool
  | ClampOrderQuantity string rat rat
  | OpenMarketOrder string string rat
  | OpenOrder string string rat rat
  | QueryOpenOrders
  | QueryOrder string bool
  | CancelOrder string string
  | ClientGetExecutions string int int
  | GetExecutions string nat
  | SupportSymbol string
  | CalculateCopySize rat rat string
  | DetectReverseSignal string string string rat rat
  | HandleReverseSignal string string
  | TwapAddSlice "int option" "int option"
  | TwapMarkSliceFollowed int int string rat
  | Sleep nat
  | SendTradeSuccess string string rat rat string int bool bool
  | SendTradeFailure string string failure_reason rat rat int bool
  | SendNotification title string string string
  | UpdateFillStatus int string
  | UpdateOrderStatus int string
  | PositionOpenedCallback string string rat rat
  | PositionClosedCallback string string

text \<open>
  What \<^verbatim>\<open>close_position\<close> returns:
  \<^verbatim>\<open>(success, closed_size, pnl, error_code)\<close>.
\<close>

record close_result =
  cr_success :: bool
  cr_closed_size :: rat
  cr_pnl :: "rat option"
  cr_error_code :: "string option"

text \<open>An item of the executions list: \<^verbatim>\<open>orderLinkId\<close>, \<^verbatim>\<open>execQty\<close>, \<^verbatim>\<open>execPrice\<close>.\<close>

record execution =
  orderLinkId :: string
  execQty :: rat
  execPrice :: rat

text \<open>
  A row of the fills table as \<^verbatim>\<open>sync_fill_record\<close> receives it: the keys
  \<^verbatim>\<open>id\<close>, \<^verbatim>\<open>hash\<close>, \<^verbatim>\<open>tx_hash\<close>, \<^verbatim>\<open>timestamp\<close>,
  \<^verbatim>\<open>coin\<close>, \<^verbatim>\<open>side\<close>, \<^verbatim>\<open>size\<close>, \<^verbatim>\<open>price\<close>,
  \<^verbatim>\<open>direction\<close>, \<^verbatim>\<open>closed_pnl\<close>, \<^verbatim>\<open>start_position\<close> and
  \<^verbatim>\<open>oid\<close>, the numbers already converted. An optional key that is missing is
  \<open>None\<close>; a missing \<^verbatim>\<open>start_position\<close> or \<^verbatim>\<open>closed_pnl\<close> is 0 and a
  missing \<^verbatim>\<open>direction\<close> or \<^verbatim>\<open>timestamp\<close> the empty string, as the
  defaults of \<^verbatim>\<open>record.get\<close> have it.
\<close>

record fill =
  f_id :: "int option"
  f_hash :: "string option"
  f_tx_hash :: "string option"
  f_timestamp :: string
  f_coin :: string
  f_side :: string
  f_size :: rat
  f_price :: rat
  f_direction :: string
  f_closed_pnl :: rat
  f_start_position :: rat
  f_oid :: "int option"

text \<open>
  The collaborators' answers. An answer may depend on everything that happened before it,
  so it is a function of the trace whose head is the call being answered; \<open>None\<close>
  stands for a call that raises. \<open>tick\<close> is the time a call takes (beyond the length
  of a sleep), \<open>epoch\<close> the clock at the empty trace. The remaining fields are the pure
  helpers of \<^verbatim>\<open>utils\<close>, \<^verbatim>\<open>symbol_filter\<close> and the standard library.
\<close>

record world =
  epoch :: datetime
  tick :: "event list \<Rightarrow> nat"
  query_positions_ret :: "event list \<Rightarrow> position list option"
  close_position_ret :: "event list \<Rightarrow> close_result option"
  set_max_leverage_ret :: "event list \<Rightarrow> int option"
  clamp_order_quantity_ret :: "event list \<Rightarrow> rat option"
  open_market_order_ret :: "event list \<Rightarrow> (bool \<times> string option) option"
  open_order_ret :: "event list \<Rightarrow> (bool \<times> string option) option"
  query_open_orders_ret :: "event list \<Rightarrow> open_order list option"
  contain_order :: "open_order list \<Rightarrow> string \<Rightarrow> string \<Rightarrow> rat \<Rightarrow> bool"
  query_order_ret :: "event list \<Rightarrow> string option option"
  cancel_order_ret :: "event list \<Rightarrow> bool option"
  client_get_executions_ret :: "event list \<Rightarrow> (int \<times> execution list) option"
  support_symbol_ret :: "event list \<Rightarrow> bool option"
  pairs :: "string \<Rightarrow> rat option option"
  calculate_copy_size_ret :: "event list \<Rightarrow> rat option"
  detect_reverse_signal_ret :: "event list \<Rightarrow> bool option"
  handle_reverse_signal_ret :: "event list \<Rightarrow> bool option"
  is_twap_fill :: "fill \<Rightarrow> bool"
  is_symbol_allowed :: "string \<Rightarrow> bool"
  symbol_filter_enabled :: bool
  ensure_full_symbol :: "string \<Rightarrow> string"
  ensure_short_symbol :: "string \<Rightarrow> string"
  strptime :: "string \<Rightarrow> datetime option"
  fromisoformat :: "string \<Rightarrow> datetime option"

text \<open>
  The constructor arguments and the constants of \<^verbatim>\<open>hyperliquid_monitor.config\<close>
  the engine reads.
\<close>

record settings =
  has_db :: bool
  has_notifier :: bool
  has_opened_callback :: bool
  has_closed_callback :: bool
  min_position_size :: rat
  leverage_config :: "string \<rightharpoonup> int"
  MAX_LEVERAGE :: int
  ENABLE_ORDER_TIME_FILTER :: bool
  ORDER_MAX_AGE_HOURS :: rat

text \<open>The per-account collections of \<^verbatim>\<open>BybitSyncManager\<close>, and the trace.\<close>

record mgr =
  synced_fills :: "int set"
  synced_orders :: "int set"
  synced_tx_hashes :: "string set"
  notified_order_ids :: "string set"
  order_id_mapping :: "int \<rightharpoonup> string"
  closed_symbols :: "string set"
  forced_liquidations :: "string \<rightharpoonup> liquidation"
  trace :: "event list"

definition emit :: "event \<Rightarrow> mgr \<Rightarrow> mgr" where
  "emit e st = st\<lparr>trace := e # trace st\<rparr>"

text \<open>
  The clock: \<^verbatim>\<open>datetime.now()\<close> and \<^verbatim>\<open>time.time()\<close> after the calls of a
  trace. Time never runs backwards, and \<^verbatim>\<open>time.sleep(n)\<close> takes at least \<open>n\<close>
  seconds.
\<close>

fun now :: "world \<Rightarrow> event list \<Rightarrow> datetime" where
  "now w [] = epoch w"
| "now w (e # tr) =
     now w tr + int (tick w (e # tr)) + (case e of Sleep n \<Rightarrow> int n * 1000000 | _ \<Rightarrow> 0)"

section \<open>Forced-liquidation memo\<close>

text \<open>
  \<^verbatim>\<open>get_forced_liquidation(symbol, side)\<close>, called when the clock reads \<open>t\<close>: the
  record if it is younger than 300 seconds; an older one is deleted and \<open>None\<close>
  returned.
\<close>

definition get_forced_liquidation ::
  "datetime \<Rightarrow> string \<Rightarrow> string \<Rightarrow> mgr \<Rightarrow> liquidation option \<times> mgr" where
  "get_forced_liquidation t symbol side st =
     (case forced_liquidations st (pos_key symbol side) of
        None \<Rightarrow> (None, st)
      | Some record \<Rightarrow>
          if total_seconds (t - liq_time record) < 300 then (Some record, st)
          else (None, st\<lparr>forced_liquidations := (forced_liquidations st)(pos_key symbol side := None)\<rparr>))"

text \<open>\<^verbatim>\<open>clear_forced_liquidation(symbol, side)\<close>.\<close>

definition clear_forced_liquidation :: "string \<Rightarrow> string \<Rightarrow> mgr \<Rightarrow> mgr" where
  "clear_forced_liquidation symbol side st =
     st\<lparr>forced_liquidations := (forced_liquidations st)(pos_key symbol side := None)\<rparr>"

section \<open>Leverage\<close>

text \<open>
  \<^verbatim>\<open>_get_leverage_for_symbol(symbol)\<close>:
  \<^verbatim>\<open>self._leverage_config.get(ensure_short_symbol(symbol).upper(), MAX_LEVERAGE)\<close>.
\<close>

definition get_leverage_for_symbol :: "settings \<Rightarrow> world \<Rightarrow> string \<Rightarrow> int" where
  "get_leverage_for_symbol cfg w symbol =
     (case leverage_config cfg (upper (ensure_short_symbol w symbol)) of
        Some l \<Rightarrow> l | None \<Rightarrow> MAX_LEVERAGE cfg)"

section \<open>Closing positions\<close>

text \<open>
  \<^verbatim>\<open>_get_min_order_qty(coin)\<close>: \<^verbatim>\<open>float(pair_info['min_qty'])\<close> of
  \<^verbatim>\<open>self.bybit._pairs.get(coin)\<close>, and 0 when the pair, the key or a number is
  missing.
\<close>

definition get_min_order_qty :: "world \<Rightarrow> string \<Rightarrow> rat" where
  "get_min_order_qty w coin =
     (case pairs w coin of
        None \<Rightarrow> 0
      | Some info \<Rightarrow> (case info of None \<Rightarrow> 0 | Some min_qty \<Rightarrow> min_qty))"

text \<open>
  The full-close test of \<^verbatim>\<open>_handle_close_position\<close> (its comment allows an error
  of 1%): \<^verbatim>\<open>abs(size / start_position) >= 0.99\<close> when
  \<^verbatim>\<open>start_position != 0\<close>.
\<close>

definition is_full_close_hl :: "rat \<Rightarrow> rat \<Rightarrow> bool" where
  "is_full_close_hl size' start_position =
     (if start_position \<noteq> 0 then \<bar>size' / start_position\<bar> \<ge> 99 / 100 else False)"

text \<open>
  The positions of the coin, of either side: the symbol starts with the coin and ends
  with \<^verbatim>\<open>USDT\<close>, and the size is positive.
\<close>

definition coin_positions :: "string \<Rightarrow> position list \<Rightarrow> position list" where
  "coin_positions coin positions =
     filter (\<lambda>p. startswith (pos_symbol p) coin \<and> endswith (pos_symbol p) ''USDT'' \<and> pos_size p > 0)
       positions"

text \<open>
  The quantity of a reduce and the flag \<^verbatim>\<open>was_forced_full_close\<close>:
  \<^verbatim>\<open>min(size, pos_size)\<close>, raised to \<^verbatim>\<open>min(min_qty, pos_size)\<close> when it
  is below a known minimum lot; the flag is set when the raised quantity is the whole
  position.
\<close>

definition reduce_close_size :: "rat \<Rightarrow> rat \<Rightarrow> rat \<Rightarrow> rat \<times> bool" where
  "reduce_close_size size' min_qty psize =
     (let close_size = min size' psize in
      if min_qty > 0 \<and> close_size < min_qty
      then (let close_size = min min_qty psize in (close_size, close_size \<ge> psize))
      else (close_size, False))"

definition forced_record :: "datetime \<Rightarrow> rat \<Rightarrow> rat \<Rightarrow> rat \<Rightarrow> liquidation" where
  "forced_record t size' min_qty closed_size =
     \<lparr>liq_time = t, liq_type = ''forced'', liq_reason = ReduceBelowMinQty,
      liq_sizes = [(''original_close_size'', size'), (''min_qty'', min_qty),
                   (''actual_size'', closed_size)]\<rparr>"

definition follow_record :: "datetime \<Rightarrow> rat \<Rightarrow> liquidation" where
  "follow_record t closed_size =
     \<lparr>liq_time = t, liq_type = ''follow'', liq_reason = FollowTraderClose,
      liq_sizes = [(''size'', closed_size)]\<rparr>"

definition set_forced_liquidation :: "string \<Rightarrow> liquidation \<Rightarrow> mgr \<Rightarrow> mgr" where
  "set_forced_liquidation k record st =
     st\<lparr>forced_liquidations := (forced_liquidations st)(k \<mapsto> record)\<rparr>"

text \<open>
  The branch \<^verbatim>\<open>if success and closed_size > 0\<close> of the loop over the coin's
  positions: the executions are queried for the price shown in the notification, a forced
  full close is recorded, the success notification is sent, and after a full close that
  was not forced the follow record is written and the callback called.
\<close>

definition close_succeeded ::
  "settings \<Rightarrow> world \<Rightarrow> rat \<Rightarrow> bool \<Rightarrow> bool \<Rightarrow> rat \<Rightarrow> position \<Rightarrow> rat \<Rightarrow> mgr \<Rightarrow> mgr" where
  "close_succeeded cfg w size' full was_forced_full_close min_qty p closed_size st =
     (let st1 = emit (GetExecutions (pos_symbol p) 10) st;
          st2 = (if was_forced_full_close
                 then set_forced_liquidation (pos_key (pos_symbol p) (pos_side p))
                        (forced_record (now w (trace st1)) size' min_qty closed_size) st1
                 else st1);
          st3 = (if has_notifier cfg
                 then emit (SendNotification
                              (if was_forced_full_close then ReduceExecutedAsFullClose
                               else if full then FullCloseSucceeded else ReduceSucceeded)
                              ''success'' (pos_symbol p) (pos_side p)) st2
                 else st2)
      in if full \<or> was_forced_full_close
         then (let st4 = (if \<not> was_forced_full_close
                          then set_forced_liquidation (pos_key (pos_symbol p) (pos_side p))
                                 (follow_record (now w (trace st3)) closed_size) st3
                          else st3)
               in if has_closed_callback cfg
                  then emit (PositionClosedCallback (pos_symbol p) (pos_side p)) st4
                  else st4)
         else st3)"

text \<open>
  The size found for the symbol and side in a requeried list: that of the first entry
  with both, 0 when there is none.
\<close>

definition target_pos_size :: "position \<Rightarrow> position list \<Rightarrow> rat" where
  "target_pos_size p current_positions =
     (case find (\<lambda>q. pos_symbol q = pos_symbol p \<and> pos_side q = pos_side p) current_positions of
        None \<Rightarrow> 0
      | Some q \<Rightarrow> pos_size q)"

definition notify_close_failed :: "settings \<Rightarrow> bool \<Rightarrow> string \<Rightarrow> string \<Rightarrow> mgr \<Rightarrow> mgr" where
  "notify_close_failed cfg full symbol side st =
     (if has_notifier cfg
      then emit (SendNotification (CloseFailed (if full then FullClose else Reduce)) ''error''
                   symbol side) st
      else st)"

text \<open>
  The other branch: the close failed. With error code 110017 the engine sleeps 5 seconds
  and queries the positions again without the cache; a non-empty answer in which the size
  for the symbol and side is 0 counts the position as closed and suppresses the failure
  notification. A requery that raises leaves the loop body through its
  \<^verbatim>\<open>except\<close>. The second component is \<^verbatim>\<open>success_count\<close>.
\<close>

definition close_failed ::
  "settings \<Rightarrow> world \<Rightarrow> bool \<Rightarrow> position \<Rightarrow> string option \<Rightarrow> mgr \<times> nat \<Rightarrow> mgr \<times> nat" where
  "close_failed cfg w full p error_code acc =
     (case acc of (st, success_count) \<Rightarrow>
        if error_code = Some ''110017'' then
          (let st1 = emit (QueryPositions (Some False)) (emit (Sleep 5) st) in
           case query_positions_ret w (trace st1) of
             None \<Rightarrow> (st1, success_count)
           | Some current_positions \<Rightarrow>
               if current_positions \<noteq> [] then
                 (if target_pos_size p current_positions = 0
                  then (st1, success_count + 1)
                  else (notify_close_failed cfg full (pos_symbol p) (pos_side p) st1, success_count))
               else (notify_close_failed cfg full (pos_symbol p) (pos_side p) st1, success_count))
        else (notify_close_failed cfg full (pos_symbol p) (pos_side p) st, success_count))"

text \<open>
  The body of the loop for one position. A full close of the source closes the whole
  position (\<^verbatim>\<open>is_half=False\<close>), a reduce closes \<^verbatim>\<open>custom_qty\<close>. A call of
  \<^verbatim>\<open>close_position\<close> that raises is caught by the body's \<^verbatim>\<open>except\<close>.
\<close>

definition close_one ::
  "settings \<Rightarrow> world \<Rightarrow> rat \<Rightarrow> bool \<Rightarrow> string \<Rightarrow> position \<Rightarrow> mgr \<times> nat \<Rightarrow> mgr \<times> nat" where
  "close_one cfg w size' full coin p acc =
     (case acc of (st, success_count) \<Rightarrow>
        (let min_qty = (if full then 0 else get_min_order_qty w coin);
             (close_size, was_forced_full_close) =
                (if full then (0, False) else reduce_close_size size' min_qty (pos_size p));
             st1 = emit (ClosePosition p (if full then IsHalf False else CustomQty close_size)) st
         in case close_position_ret w (trace st1) of
              None \<Rightarrow> (st1, success_count)
            | Some r \<Rightarrow>
                if cr_success r \<and> cr_closed_size r > 0
                then (close_succeeded cfg w size' full was_forced_full_close min_qty p
                        (cr_closed_size r) st1, success_count + 1)
                else close_failed cfg w full p (cr_error_code r) (st1, success_count)))"

text \<open>
  \<^verbatim>\<open>_handle_close_position(symbol, side, size, price, record)\<close>, where
  \<open>start_position\<close> is \<^verbatim>\<open>float(record.get('start_position', 0))\<close>. A
  \<^verbatim>\<open>query_positions\<close> that raises is reported by the outer \<^verbatim>\<open>except\<close>.
\<close>

definition handle_close_position ::
  "settings \<Rightarrow> world \<Rightarrow> string \<Rightarrow> string \<Rightarrow> rat \<Rightarrow> rat \<Rightarrow> rat \<Rightarrow> mgr \<Rightarrow> mgr" where
  "handle_close_position cfg w symbol side size' price start_position st =
     (let full = is_full_close_hl size' start_position;
          coin = replace_USDT symbol;
          st1 = emit (QueryPositions None) st
      in case query_positions_ret w (trace st1) of
           None \<Rightarrow> notify_close_failed cfg full symbol '''' st1
         | Some positions \<Rightarrow>
             if positions = [] then st1
             else if coin_positions coin positions = [] then st1
             else fst (foldl (\<lambda>acc p. close_one cfg w size' full coin p acc) (st1, 0)
                         (coin_positions coin positions)))"

section \<open>Limit orders: place and cancel\<close>


text \<open>Python's truth value of an optional id and of an optional string.\<close>

definition truthy_id :: "int option \<Rightarrow> bool" where
  "truthy_id i = (case i of None \<Rightarrow> False | Some n \<Rightarrow> n \<noteq> 0)"

definition truthy_str :: "string option \<Rightarrow> bool" where
  "truthy_str s = (case s of None \<Rightarrow> False | Some t \<Rightarrow> t \<noteq> [])"


definition update_fill_status :: "settings \<Rightarrow> int \<Rightarrow> string \<Rightarrow> mgr \<Rightarrow> mgr" where
  "update_fill_status cfg i status st =
     (if has_db cfg then emit (UpdateFillStatus i status) st else st)"





section \<open>Opening positions\<close>

text \<open>
  \<^verbatim>\<open>if record_id: self._synced_fills.add(record_id)\<close>, followed where the source
  has it by the update of the status column.
\<close>

definition add_synced_fill :: "int option \<Rightarrow> mgr \<Rightarrow> mgr" where
  "add_synced_fill record_id st =
     (if truthy_id record_id
      then st\<lparr>synced_fills := insert (the record_id) (synced_fills st)\<rparr>
      else st)"

definition mark_fill :: "settings \<Rightarrow> int option \<Rightarrow> string \<Rightarrow> mgr \<Rightarrow> mgr" where
  "mark_fill cfg record_id status st =
     (if truthy_id record_id
      then update_fill_status cfg (the record_id) status
             (st\<lparr>synced_fills := insert (the record_id) (synced_fills st)\<rparr>)
      else st)"

text \<open>
  \<^verbatim>\<open>_wait_for_order_execution(order_link_id, timeout=30)\<close>: while less than 30
  seconds have passed since the start, the order is queried; the loop ends when the query
  raises, when the venue has no such order, and when the order is filled, cancelled or
  rejected; otherwise it sleeps a second and goes round again.
\<close>

function wait_loop :: "world \<Rightarrow> string \<Rightarrow> datetime \<Rightarrow> mgr \<Rightarrow> mgr" where
  "wait_loop w order_link_id start_time st =
     (if total_seconds (now w (trace st) - start_time) < 30 then
        (case query_order_ret w (QueryOrder order_link_id True # trace st) of
           None \<Rightarrow> emit (QueryOrder order_link_id True) st
         | Some None \<Rightarrow> emit (QueryOrder order_link_id True) st
         | Some (Some status) \<Rightarrow>
             if status = ''Filled'' then emit (QueryOrder order_link_id True) st
             else if status = ''Cancelled'' \<or> status = ''Rejected''
             then emit (QueryOrder order_link_id True) st
             else wait_loop w order_link_id start_time
                    (emit (Sleep 1) (emit (QueryOrder order_link_id True) st)))
      else st)"
  by pat_completeness auto
termination
proof (relation "measure (\<lambda>(w, order_link_id, start_time, st).
                   nat (start_time + 30000000 - now w (trace st)))")
  show "wf (measure (\<lambda>(w, order_link_id, start_time, st).
                   nat (start_time + 30000000 - now w (trace st))))"
    by simp
next
  fix w :: world and order_link_id :: string and start_time :: datetime and st :: mgr
    and x2 :: "string option" and x2a :: string
  assume "total_seconds (now w (trace st) - start_time) < 30"
  then have "now w (trace st) - start_time < 30000000"
    by (simp add: total_seconds_def)
  then show "((w, order_link_id, start_time,
               emit (Sleep 1) (emit (QueryOrder order_link_id True) st)),
              w, order_link_id, start_time, st)
             \<in> measure (\<lambda>(w, order_link_id, start_time, st).
                   nat (start_time + 30000000 - now w (trace st)))"
    by (simp add: emit_def)
qed

definition wait_for_order_execution :: "world \<Rightarrow> string \<Rightarrow> mgr \<Rightarrow> mgr" where
  "wait_for_order_execution w order_link_id st =
     wait_loop w order_link_id (now w (trace st)) st"

text \<open>
  The filled quantity and the volume-weighted price of the executions whose
  \<^verbatim>\<open>orderLinkId\<close> is the order's; the requested quantity and the reference price when
  the query raises, answers with a \<^verbatim>\<open>retCode\<close> other than 0, or finds nothing.
\<close>

definition actual_fill ::
  "(int \<times> execution list) option \<Rightarrow> string \<Rightarrow> rat \<Rightarrow> rat \<Rightarrow> rat \<times> rat" where
  "actual_fill response order_id qty price =
     (case response of
        None \<Rightarrow> (qty, price)
      | Some (retCode, executions) \<Rightarrow>
          if retCode = 0 then
            (let matching = filter (\<lambda>e. orderLinkId e = order_id) executions;
                 total_qty = sum_list (map execQty matching);
                 total_value = sum_list (map (\<lambda>e. execQty e * execPrice e) matching)
             in if matching \<noteq> [] \<and> total_qty > 0 then (total_qty, total_value / total_qty)
                else (qty, price))
          else (qty, price))"

text \<open>
  The branch \<^verbatim>\<open>if success and order_id\<close>: wait for the order, read the executions of
  the last 30 seconds, mark the record as synced, call the callback, send the success
  notification unless one was sent for this order id, and record a followed TWAP slice.
\<close>

definition open_succeeded ::
  "settings \<Rightarrow> world \<Rightarrow> string \<Rightarrow> string \<Rightarrow> rat \<Rightarrow> rat \<Rightarrow> int option \<Rightarrow> bool \<Rightarrow> int option
     \<Rightarrow> int \<Rightarrow> bool \<Rightarrow> string \<Rightarrow> mgr \<Rightarrow> mgr" where
  "open_succeeded cfg w symbol side qty price record_id is_twap twap_oid leverage is_new_position
     order_id st =
     (let st1 = wait_for_order_execution w order_id st;
          current_time = now w (trace st1) div 1000;
          st2 = emit (ClientGetExecutions symbol (current_time - 30000) current_time) st1;
          (actual_filled_qty, actual_filled_price) =
             actual_fill (client_get_executions_ret w (trace st2)) order_id qty price;
          st3 = add_synced_fill record_id st2;
          st4 = (if has_opened_callback cfg
                 then emit (PositionOpenedCallback symbol side actual_filled_qty actual_filled_price) st3
                 else st3);
          st5 = (if has_notifier cfg \<and> order_id \<notin> notified_order_ids st4
                 then (emit (SendTradeSuccess symbol side actual_filled_qty actual_filled_price
                               order_id leverage is_new_position is_twap) st4)
                        \<lparr>notified_order_ids := insert order_id (notified_order_ids st4)\<rparr>
                 else st4)
      in if is_twap \<and> truthy_id twap_oid \<and> truthy_id record_id
         then emit (TwapMarkSliceFollowed (the twap_oid) (the record_id) order_id actual_filled_qty) st5
         else st5)"

text \<open>
  The handler's \<^verbatim>\<open>except\<close>: the record is marked failed and the failure is notified.
  The notification reads \<^verbatim>\<open>is_new_position\<close>; when the exception came before that
  variable was assigned (\<open>None\<close>), building the notification raises in turn and nothing is
  sent.
\<close>

definition open_except ::
  "settings \<Rightarrow> world \<Rightarrow> string \<Rightarrow> string \<Rightarrow> rat \<Rightarrow> rat \<Rightarrow> int option \<Rightarrow> bool option \<Rightarrow> mgr
     \<Rightarrow> mgr \<times> bool" where
  "open_except cfg w symbol side size' price record_id is_new_position st =
     (let st1 = mark_fill cfg record_id ''failed'' st
      in (case is_new_position of
            None \<Rightarrow> st1
          | Some new \<Rightarrow>
              if has_notifier cfg
              then emit (SendTradeFailure symbol side ExceptionRaised size' price
                           (get_leverage_for_symbol cfg w symbol) new) st1
              else st1,
          False))"

text \<open>
  The second half of \<^verbatim>\<open>_handle_open_position\<close>, from the look for an existing
  position of the symbol and side (which tells an add from an open) to the end: the
  market order is sent; a placement the venue reports as done with an order id is
  followed up, any other answer marks the record failed and is notified.
\<close>

definition submit_market_order ::
  "settings \<Rightarrow> world \<Rightarrow> string \<Rightarrow> string \<Rightarrow> rat \<Rightarrow> rat \<Rightarrow> int option \<Rightarrow> bool \<Rightarrow> int option
     \<Rightarrow> int \<Rightarrow> rat \<Rightarrow> mgr \<Rightarrow> mgr \<times> bool" where
  "submit_market_order cfg w symbol side size' price record_id is_twap twap_oid leverage qty st =
     (let st4 = emit (QueryPositions None) st;
          is_new_position =
            (case query_positions_ret w (trace st4) of
               None \<Rightarrow> True
             | Some existing_positions \<Rightarrow>
                 \<not> list_ex (\<lambda>pos. pos_symbol pos = symbol \<and> pos_side pos = side
                                   \<and> pos_size pos > 0) existing_positions);
          st5 = emit (OpenMarketOrder symbol side qty) st4
      in case open_market_order_ret w (trace st5) of
           None \<Rightarrow> open_except cfg w symbol side size' price record_id (Some is_new_position) st5
         | Some (success, order_id) \<Rightarrow>
             if success \<and> truthy_str order_id
             then (open_succeeded cfg w symbol side qty price record_id is_twap twap_oid
                     leverage is_new_position (the order_id) st5, True)
             else
               (let st6 = mark_fill cfg record_id ''failed'' st5
                in (if has_notifier cfg
                    then emit (SendTradeFailure symbol side OrderSubmitFailed
                                 size' price leverage is_new_position) st6
                    else st6, False)))"

text \<open>
  \<^verbatim>\<open>_handle_open_position(symbol, side, size, price, record, is_twap, twap_oid, twap_order)\<close>;
  \<open>record_id\<close> is \<^verbatim>\<open>record.get('id')\<close>. The result is the state and the returned
  flag. The leverage is set by \<^verbatim>\<open>set_max_leverage(symbol, use_exchange_max=True)\<close>;
  the value it returns goes into the notifications.
\<close>

definition handle_open_position ::
  "settings \<Rightarrow> world \<Rightarrow> string \<Rightarrow> string \<Rightarrow> rat \<Rightarrow> rat \<Rightarrow> int option \<Rightarrow> bool \<Rightarrow> int option \<Rightarrow> mgr
     \<Rightarrow> mgr \<times> bool" where
  "handle_open_position cfg w symbol side size' price record_id is_twap twap_oid st =
     (if truthy_id record_id \<and> the record_id \<in> synced_fills st then (st, True)
      else
        (let st1 = emit (CalculateCopySize size' price symbol) st in
         case calculate_copy_size_ret w (trace st1) of
           None \<Rightarrow> open_except cfg w symbol side size' price record_id None st1
         | Some copy_size \<Rightarrow>
             if copy_size \<le> 0 then
               (mark_fill cfg record_id ''filtered''
                  (if has_notifier cfg
                   then emit (SendTradeFailure symbol side AmountBelowMinimum size' price
                                (get_leverage_for_symbol cfg w symbol) True) st1
                   else st1),
                False)
             else
               (let st2 = emit (SetMaxLeverage symbol True) st1 in
                case set_max_leverage_ret w (trace st2) of
                  None \<Rightarrow> open_except cfg w symbol side size' price record_id None st2
                | Some leverage \<Rightarrow>
                    (let st3 = emit (ClampOrderQuantity symbol price copy_size) st2 in
                     case clamp_order_quantity_ret w (trace st3) of
                       None \<Rightarrow> open_except cfg w symbol side size' price record_id None st3
                     | Some qty \<Rightarrow>
                         if qty < min_position_size cfg
                         then (mark_fill cfg record_id ''filtered'' st3, False)
                         else submit_market_order cfg w symbol side size' price record_id
                                is_twap twap_oid leverage qty st3))))"


text \<open>The order placements of a trace: market orders and limit orders sent to the venue.\<close>

fun is_order_placement :: "event \<Rightarrow> bool" where
  "is_order_placement (OpenMarketOrder symbol side qty) = True"
| "is_order_placement (OpenOrder symbol side qty price) = True"
| "is_order_placement e = False"

definition order_placements :: "event list \<Rightarrow> nat" where
  "order_placements tr = length (filter is_order_placement tr)"

text \<open>
  The calls of a trace that reach the destination venue (through the adapter, the position
  calculator or the reverse handler), and its notifications.
\<close>

fun is_venue_call :: "event \<Rightarrow> bool" where
  "is_venue_call (Sleep n) = False"
| "is_venue_call (SendTradeSuccess symbol side qty price order_id leverage new twap) = False"
| "is_venue_call (SendTradeFailure symbol side reason size' price leverage new) = False"
| "is_venue_call (SendNotification title kind symbol side) = False"
| "is_venue_call (UpdateFillStatus i status) = False"
| "is_venue_call (UpdateOrderStatus i status) = False"
| "is_venue_call (PositionOpenedCallback symbol side qty price) = False"
| "is_venue_call (PositionClosedCallback symbol side) = False"
| "is_venue_call (TwapAddSlice i oid) = False"
| "is_venue_call (TwapMarkSliceFollowed oid i order_id qty) = False"
| "is_venue_call e = True"

fun is_notification :: "event \<Rightarrow> bool" where
  "is_notification (SendTradeSuccess symbol side qty price order_id leverage new twap) = True"
| "is_notification (SendTradeFailure symbol side reason size' price leverage new) = True"
| "is_notification (SendNotification title kind symbol side) = True"
| "is_notification e = False"

section \<open>Closing everything, and the reduce handler\<close>

text \<open>
  The body of the loop of \<^verbatim>\<open>_handle_force_close_all\<close> for one position: the whole
  position is closed and the outcome notified. A \<^verbatim>\<open>close_position\<close> that raises is
  caught by the body's \<^verbatim>\<open>except\<close>. The second component is
  \<^verbatim>\<open>success_count\<close>.
\<close>

definition force_close_one :: "settings \<Rightarrow> world \<Rightarrow> position \<Rightarrow> mgr \<times> nat \<Rightarrow> mgr \<times> nat" where
  "force_close_one cfg w p acc =
     (case acc of (st, success_count) \<Rightarrow>
        (let st1 = emit (ClosePosition p (IsHalf False)) st in
         case close_position_ret w (trace st1) of
           None \<Rightarrow> (st1, success_count)
         | Some r \<Rightarrow>
             if cr_success r \<and> cr_closed_size r > 0
             then (if has_notifier cfg
                   then emit (SendNotification ForceCloseAllDone ''close'' (pos_symbol p) (pos_side p)) st1
                   else st1, success_count + 1)
             else (if has_notifier cfg
                   then emit (SendNotification ForceCloseFailed ''error'' (pos_symbol p) (pos_side p)) st1
                   else st1, success_count)))"

text \<open>
  \<^verbatim>\<open>_handle_force_close_all(symbol, coin, record, reason)\<close>: nothing is done for a
  coin already marked as closed; otherwise every position of the coin is closed in full,
  and the coin is marked as closed when there was nothing to close or every close was
  done.
\<close>

definition handle_force_close_all :: "settings \<Rightarrow> world \<Rightarrow> string \<Rightarrow> string \<Rightarrow> mgr \<Rightarrow> mgr" where
  "handle_force_close_all cfg w symbol coin st =
     (if coin \<in> closed_symbols st then st
      else
        (let st1 = emit (QueryPositions None) st in
         case query_positions_ret w (trace st1) of
           None \<Rightarrow> (if has_notifier cfg
                     then emit (SendNotification ForceCloseException ''error'' symbol '''') st1
                     else st1)
         | Some positions \<Rightarrow>
             if positions = [] \<or> coin_positions coin positions = []
             then st1\<lparr>closed_symbols := insert coin (closed_symbols st1)\<rparr>
             else (case foldl (\<lambda>acc p. force_close_one cfg w p acc) (st1, 0)
                          (coin_positions coin positions) of
                     (st2, success_count) \<Rightarrow>
                       if success_count = length (coin_positions coin positions)
                       then st2\<lparr>closed_symbols := insert coin (closed_symbols st2)\<rparr>
                       else st2)))"

text \<open>
  \<^verbatim>\<open>_handle_reduce_position(symbol, coin, record)\<close>. Its loop asks the venue to close
  each position of the coin in full and unpacks the answer into three names:
  \<^verbatim>\<open>success, closed_size, pnl = self.bybit.close_position(position, is_half=False)\<close>.
  The call returns four values (every other call site unpacks
  \<^verbatim>\<open>success, closed_size, pnl, error_code\<close>), so the unpacking raises and the
  body's \<^verbatim>\<open>except\<close> ends the iteration, as it does when the call itself raises:
  no close is counted, and after the loop the failure is notified.
\<close>

definition handle_reduce_position :: "settings \<Rightarrow> world \<Rightarrow> string \<Rightarrow> string \<Rightarrow> mgr \<Rightarrow> mgr" where
  "handle_reduce_position cfg w symbol coin st =
     (if coin \<in> closed_symbols st then st
      else
        (let st1 = emit (QueryPositions None) st in
         case query_positions_ret w (trace st1) of
           None \<Rightarrow> (if has_notifier cfg
                     then emit (SendNotification ReduceCloseFailed ''error'' symbol '''') st1
                     else st1)
         | Some positions \<Rightarrow>
             if positions = [] \<or> coin_positions coin positions = [] then st1
             else
               (let st2 = foldl (\<lambda>acc p. emit (ClosePosition p (IsHalf False)) acc) st1
                            (coin_positions coin positions)
                in if has_notifier cfg
                   then emit (SendNotification ReduceCloseFailed ''error'' symbol '''') st2
                   else st2)))"

section \<open>Synchronising a fill\<close>

text \<open>\<^verbatim>\<open>_convert_side_to_bybit_format(side, direction)\<close>.\<close>

definition convert_side_to_bybit_format :: "string \<Rightarrow> string \<Rightarrow> string" where
  "convert_side_to_bybit_format side direction =
     (if direction \<noteq> [] \<and> (str_in ''Long'' direction \<or> str_in ''long'' direction) then ''Buy''
      else if direction \<noteq> [] \<and> (str_in ''Short'' direction \<or> str_in ''short'' direction) then ''Sell''
      else if side = ''BUY'' then ''Buy''
      else if side = ''SELL'' then ''Sell''
      else if side \<noteq> [] then capitalize side else ''Buy'')"

text \<open>
  \<^verbatim>\<open>if record_id is not None: self._synced_fills.add(record_id)\<close>, followed where the
  source has it by the update of the status column.
\<close>

definition add_synced :: "int option \<Rightarrow> mgr \<Rightarrow> mgr" where
  "add_synced record_id st =
     (case record_id of
        None \<Rightarrow> st
      | Some i \<Rightarrow> st\<lparr>synced_fills := insert i (synced_fills st)\<rparr>)"

definition mark_synced :: "settings \<Rightarrow> int option \<Rightarrow> string \<Rightarrow> mgr \<Rightarrow> mgr" where
  "mark_synced cfg record_id status st =
     (case record_id of
        None \<Rightarrow> st
      | Some i \<Rightarrow> update_fill_status cfg i status (st\<lparr>synced_fills := insert i (synced_fills st)\<rparr>))"

text \<open>
  \<^verbatim>\<open>_check_symbol_support(coin, record_id, is_fill=True)\<close>: \<open>Some True\<close> for a coin
  that may be traded, \<open>Some False\<close> after marking the record filtered or unsupported, and
  \<open>None\<close> when \<^verbatim>\<open>support_symbol\<close> raises.
\<close>

definition check_symbol_support ::
  "settings \<Rightarrow> world \<Rightarrow> string \<Rightarrow> int option \<Rightarrow> mgr \<Rightarrow> mgr \<times> bool option" where
  "check_symbol_support cfg w coin record_id st =
     (if \<not> is_symbol_allowed w coin then (mark_synced cfg record_id ''filtered'' st, Some False)
      else if \<not> symbol_filter_enabled w then
        (let st1 = emit (SupportSymbol (ensure_full_symbol w coin)) st in
         case support_symbol_ret w (trace st1) of
           None \<Rightarrow> (st1, None)
         | Some supported \<Rightarrow>
             if \<not> supported then (mark_synced cfg record_id ''unsupported'' st1, Some False)
             else (st1, Some True))
      else (st, Some True))"

text \<open>
  \<^verbatim>\<open>_parse_timestamp\<close>, \<^verbatim>\<open>_is_order_fresh\<close> and
  \<^verbatim>\<open>_validate_order_freshness(record_id, timestamp_str, is_fill=True)\<close>: the flag
  \<^verbatim>\<open>is_fresh\<close>, after marking a stale record filtered.
\<close>

definition parse_timestamp :: "world \<Rightarrow> string \<Rightarrow> datetime \<Rightarrow> datetime" where
  "parse_timestamp w timestamp_str current_time =
     (if timestamp_str \<noteq> []
      then (case strptime w timestamp_str of Some t \<Rightarrow> t | None \<Rightarrow> current_time)
      else current_time)"

definition is_order_fresh :: "settings \<Rightarrow> datetime \<Rightarrow> datetime \<Rightarrow> bool" where
  "is_order_fresh cfg order_timestamp current_time =
     (if \<not> ENABLE_ORDER_TIME_FILTER cfg then True
      else \<not> (total_seconds (current_time - order_timestamp) / 3600 > ORDER_MAX_AGE_HOURS cfg))"

definition validate_order_freshness ::
  "settings \<Rightarrow> world \<Rightarrow> int option \<Rightarrow> string \<Rightarrow> mgr \<Rightarrow> mgr \<times> bool" where
  "validate_order_freshness cfg w record_id timestamp_str st =
     (if \<not> is_order_fresh cfg (parse_timestamp w timestamp_str (now w (trace st))) (now w (trace st))
      then (mark_synced cfg record_id ''filtered'' st, False)
      else (st, True))"

text \<open>
  The full-close test of \<^verbatim>\<open>sync_fill_record\<close> (its comment allows an error of
  0.5%): \<^verbatim>\<open>abs(size / abs(start_position)) >= 0.995\<close> when
  \<^verbatim>\<open>start_position != 0\<close>.
\<close>

definition is_complete_close :: "rat \<Rightarrow> rat \<Rightarrow> bool" where
  "is_complete_close size' start_position =
     (if start_position \<noteq> 0 then \<bar>size' / \<bar>start_position\<bar>\<bar> \<ge> 995 / 1000 else False)"

text \<open>
  The side a reverse signal opens: \<^verbatim>\<open>Sell\<close> for long to short, \<^verbatim>\<open>Buy\<close> for short
  to long, \<open>None\<close> for a direction with neither pattern.
\<close>

definition reverse_new_side :: "string \<Rightarrow> string option" where
  "reverse_new_side direction =
     (if str_in ''Long > Short'' direction \<or> str_in ''long > short'' (lower direction)
      then Some ''Sell''
      else if str_in ''Short > Long'' direction \<or> str_in ''short > long'' (lower direction)
      then Some ''Buy''
      else None)"

text \<open>The handler of \<^verbatim>\<open>except Exception\<close> of \<^verbatim>\<open>sync_fill_record\<close>.\<close>

definition sync_failed :: "settings \<Rightarrow> fill \<Rightarrow> mgr \<Rightarrow> mgr" where
  "sync_failed cfg record st =
     (case f_id record of None \<Rightarrow> st | Some i \<Rightarrow> update_fill_status cfg i ''failed'' st)"

text \<open>
  A detected reverse signal is handed to the reverse handler; success clears the coin's
  closed mark, failure sets the status failed; the record counts as synced and
  \<^verbatim>\<open>sync_fill_record\<close> returns.
\<close>

definition run_reverse :: "settings \<Rightarrow> world \<Rightarrow> fill \<Rightarrow> string \<Rightarrow> string \<Rightarrow> mgr \<Rightarrow> mgr" where
  "run_reverse cfg w record symbol new_side st =
     (let st1 = emit (HandleReverseSignal symbol new_side) st in
      case handle_reverse_signal_ret w (trace st1) of
        None \<Rightarrow> sync_failed cfg record st1
      | Some success \<Rightarrow>
          add_synced (f_id record)
            (if success then st1\<lparr>closed_symbols := closed_symbols st1 - {f_coin record}\<rparr>
             else sync_failed cfg record st1))"

text \<open>
  A successful open clears the coin's closed mark
  (\<^verbatim>\<open>if success and coin in self._closed_symbols: self._closed_symbols.remove(coin)\<close>).
\<close>

definition open_and_unmark ::
  "settings \<Rightarrow> world \<Rightarrow> fill \<Rightarrow> string \<Rightarrow> string \<Rightarrow> bool \<Rightarrow> int option \<Rightarrow> mgr \<Rightarrow> mgr" where
  "open_and_unmark cfg w record symbol bybit_side is_twap twap_oid st =
     (case handle_open_position cfg w symbol bybit_side (f_size record) (f_price record)
             (f_id record) is_twap twap_oid st of
        (st1, success) \<Rightarrow>
          if success then st1\<lparr>closed_symbols := closed_symbols st1 - {f_coin record}\<rparr> else st1)"

text \<open>
  The end of \<^verbatim>\<open>sync_fill_record\<close>: the record is marked synced and processed, or,
  without an id, its hash is remembered.
\<close>

definition hash_or_tx_hash :: "fill \<Rightarrow> string option" where
  "hash_or_tx_hash record = (if truthy_str (f_hash record) then f_hash record else f_tx_hash record)"

definition finish_fill :: "settings \<Rightarrow> fill \<Rightarrow> mgr \<Rightarrow> mgr" where
  "finish_fill cfg record st =
     (case f_id record of
        Some i \<Rightarrow> update_fill_status cfg i ''processed'' (st\<lparr>synced_fills := insert i (synced_fills st)\<rparr>)
      | None \<Rightarrow>
          if truthy_str (hash_or_tx_hash record)
          then st\<lparr>synced_tx_hashes := insert (the (hash_or_tx_hash record)) (synced_tx_hashes st)\<rparr>
          else st)"

text \<open>
  The chain \<^verbatim>\<open>if is_complete_close ... elif closed_pnl != 0 ... elif 'Close' in
  direction ... elif 'Open' in direction ... else\<close> and what follows it. An open first asks
  the reverse handler whether the fill reverses a position.
\<close>

definition dispatch_fill ::
  "settings \<Rightarrow> world \<Rightarrow> fill \<Rightarrow> string \<Rightarrow> bool \<Rightarrow> int option \<Rightarrow> mgr \<Rightarrow> mgr" where
  "dispatch_fill cfg w record symbol is_twap twap_oid st =
     (if is_complete_close (f_size record) (f_start_position record)
      then finish_fill cfg record (handle_force_close_all cfg w symbol (f_coin record) st)
      else if f_closed_pnl record \<noteq> 0
      then finish_fill cfg record
             (handle_close_position cfg w symbol (f_side record) (f_size record) (f_price record)
                (f_start_position record) st)
      else if str_in ''Close'' (f_direction record) \<or> str_in ''close'' (lower (f_direction record))
      then finish_fill cfg record (handle_reduce_position cfg w symbol (f_coin record) st)
      else if str_in ''Open'' (f_direction record) then
        (let st1 = emit (DetectReverseSignal symbol (f_direction record) (f_side record)
                           (f_size record) (f_price record)) st in
         case detect_reverse_signal_ret w (trace st1) of
           None \<Rightarrow> sync_failed cfg record st1
         | Some reverse_signal \<Rightarrow>
             if reverse_signal then run_reverse cfg w record symbol (f_side record) st1
             else finish_fill cfg record
                    (open_and_unmark cfg w record symbol
                       (convert_side_to_bybit_format (f_side record) (f_direction record))
                       is_twap twap_oid st1))
      else finish_fill cfg record st)"

text \<open>
  A fill whose direction holds \<^verbatim>\<open>>\<close> and one of the two reverse patterns: the
  reverse handler is asked for a signal; with one the reverse is run, without one the
  fill is handled as an open of the new side. Either way \<^verbatim>\<open>sync_fill_record\<close>
  returns from here.
\<close>

definition reverse_fill ::
  "settings \<Rightarrow> world \<Rightarrow> fill \<Rightarrow> string \<Rightarrow> string \<Rightarrow> bool \<Rightarrow> int option \<Rightarrow> mgr \<Rightarrow> mgr" where
  "reverse_fill cfg w record symbol new_side is_twap twap_oid st =
     (let st1 = emit (DetectReverseSignal symbol (f_direction record) new_side
                        (f_size record) (f_price record)) st in
      case detect_reverse_signal_ret w (trace st1) of
        None \<Rightarrow> sync_failed cfg record st1
      | Some reverse_signal \<Rightarrow>
          if reverse_signal then run_reverse cfg w record symbol new_side st1
          else add_synced (f_id record)
                 (open_and_unmark cfg w record symbol new_side is_twap twap_oid st1))"

text \<open>
  \<^verbatim>\<open>sync_fill_record\<close> after the duplicate, allowlist and age checks: the TWAP
  slice is recorded (\<^verbatim>\<open>datetime.fromisoformat\<close> of a timestamp it cannot read
  raises), then the reverse patterns are tried, then the chain above.
\<close>

definition sync_fresh_fill :: "settings \<Rightarrow> world \<Rightarrow> fill \<Rightarrow> mgr \<Rightarrow> mgr" where
  "sync_fresh_fill cfg w record st =
     (let symbol = ensure_full_symbol w (f_coin record);
          is_twap = is_twap_fill w record;
          twap_oid = (if is_twap then f_oid record else None)
      in if is_twap \<and> f_timestamp record \<noteq> [] \<and> fromisoformat w (f_timestamp record) = None
         then sync_failed cfg record st
         else
           (let st1 = (if is_twap then emit (TwapAddSlice (f_id record) twap_oid) st else st) in
            if str_in ''>'' (f_direction record) \<and> reverse_new_side (f_direction record) \<noteq> None
            then reverse_fill cfg w record symbol (the (reverse_new_side (f_direction record)))
                   is_twap twap_oid st1
            else dispatch_fill cfg w record symbol is_twap twap_oid st1))"

text \<open>The all-zero hash of a synthetic fill.\<close>

definition zero_hash :: string where
  "zero_hash = ''0x'' @ replicate 64 (CHR ''0'')"

text \<open>
  \<^verbatim>\<open>sync_fill_record\<close> from the check of the coin on: a coin that is not allowed
  or not supported and a fill that is too old end the synchronisation.
\<close>

definition sync_checked_fill :: "settings \<Rightarrow> world \<Rightarrow> fill \<Rightarrow> mgr \<Rightarrow> mgr" where
  "sync_checked_fill cfg w record st =
     (case check_symbol_support cfg w (f_coin record) (f_id record) st of
        (st1, None) \<Rightarrow> sync_failed cfg record st1
      | (st1, Some supported) \<Rightarrow>
          if \<not> supported then st1
          else (case validate_order_freshness cfg w (f_id record) (f_timestamp record) st1 of
                  (st2, is_fresh) \<Rightarrow>
                    if \<not> is_fresh then st2 else sync_fresh_fill cfg w record st2))"

text \<open>
  \<^verbatim>\<open>sync_fill_record\<close> inside its \<^verbatim>\<open>try\<close>: a hash that is neither empty nor
  the zero hash marks the record as a duplicate when it was seen before and is remembered
  otherwise, before the coin and the age are checked.
\<close>

definition sync_pending_fill :: "settings \<Rightarrow> world \<Rightarrow> fill \<Rightarrow> mgr \<Rightarrow> mgr" where
  "sync_pending_fill cfg w record st =
     (if truthy_str (f_tx_hash record) \<and> the (f_tx_hash record) \<noteq> zero_hash
      then (if the (f_tx_hash record) \<in> synced_tx_hashes st
            then mark_synced cfg (f_id record) ''duplicate'' st
            else sync_checked_fill cfg w record
                   (st\<lparr>synced_tx_hashes := insert (the (f_tx_hash record)) (synced_tx_hashes st)\<rparr>))
      else sync_checked_fill cfg w record st)"

text \<open>
  \<^verbatim>\<open>sync_fill_record(record)\<close>: a record whose id is among the synced fills, or
  which has no id and whose hash was seen, is skipped.
\<close>

definition sync_fill_record :: "settings \<Rightarrow> world \<Rightarrow> fill \<Rightarrow> mgr \<Rightarrow> mgr" where
  "sync_fill_record cfg w record st =
     (case f_id record of
        None \<Rightarrow>
          if truthy_str (hash_or_tx_hash record)
             \<and> the (hash_or_tx_hash record) \<in> synced_tx_hashes st
          then st
          else sync_pending_fill cfg w record st
      | Some record_id \<Rightarrow>
          if record_id \<in> synced_fills st then st
          else sync_pending_fill cfg w record st)"

text \<open>Fills synchronised one after the other.\<close>

fun sync_fill_records :: "settings \<Rightarrow> world \<Rightarrow> fill list \<Rightarrow> mgr \<Rightarrow> mgr" where
  "sync_fill_records cfg w [] st = st"
| "sync_fill_records cfg w (record # records) st =
     sync_fill_records cfg w records (sync_fill_record cfg w record st)"

section \<open>Worlds and settings of the examples\<close>

text \<open>
  A venue that holds no position and no order and rejects every request, an account with
  a notifier and a status column, and an engine that has processed nothing yet. The
  examples below change single answers of it.
\<close>

definition quiet_world :: world where
  "quiet_world =
     \<lparr>epoch = 0, tick = (\<lambda>tr. 0),
      query_positions_ret = (\<lambda>tr. Some []),
      close_position_ret = (\<lambda>tr. Some \<lparr>cr_success = False, cr_closed_size = 0,
                                          cr_pnl = None, cr_error_code = None\<rparr>),
      set_max_leverage_ret = (\<lambda>tr. Some 100),
      clamp_order_quantity_ret = (\<lambda>tr. Some 0),
      open_market_order_ret = (\<lambda>tr. Some (False, None)),
      open_order_ret = (\<lambda>tr. Some (False, None)),
      query_open_orders_ret = (\<lambda>tr. Some []),
      contain_order = (\<lambda>orders symbol side price. False),
      query_order_ret = (\<lambda>tr. Some None),
      cancel_order_ret = (\<lambda>tr. Some False),
      client_get_executions_ret = (\<lambda>tr. Some (0, [])),
      support_symbol_ret = (\<lambda>tr. Some True),
      pairs = (\<lambda>coin. None),
      calculate_copy_size_ret = (\<lambda>tr. Some 0),
      detect_reverse_signal_ret = (\<lambda>tr. Some False),
      handle_reverse_signal_ret = (\<lambda>tr. Some False),
      is_twap_fill = (\<lambda>record. False),
      is_symbol_allowed = (\<lambda>coin. True),
      symbol_filter_enabled = True,
      ensure_full_symbol = (\<lambda>coin. coin @ ''USDT''),
      ensure_short_symbol = replace_USDT,
      strptime = (\<lambda>s. None),
      fromisoformat = (\<lambda>s. None)\<rparr>"

definition plain_settings :: settings where
  "plain_settings =
     \<lparr>has_db = True, has_notifier = True, has_opened_callback = False,
      has_closed_callback = False, min_position_size = 1 / 1000,
      leverage_config = Map.empty, MAX_LEVERAGE = 20,
      ENABLE_ORDER_TIME_FILTER = False, ORDER_MAX_AGE_HOURS = 24\<rparr>"

definition fresh_mgr :: mgr where
  "fresh_mgr =
     \<lparr>synced_fills = {}, synced_orders = {}, synced_tx_hashes = {}, notified_order_ids = {},
      order_id_mapping = Map.empty, closed_symbols = {}, forced_liquidations = Map.empty,
      trace = []\<rparr>"










text \<open>An engine that stored a forced record for SOLUSDT Buy when the clock read 1000000.\<close>

definition sol_record :: liquidation where
  "sol_record = forced_record 1000000 (1 / 100) (1 / 10) (1 / 20)"

definition recorded_mgr :: mgr where
  "recorded_mgr =
     fresh_mgr\<lparr>forced_liquidations := [pos_key ''SOLUSDT'' ''Buy'' \<mapsto> sol_record]\<rparr>"






text \<open>
  A venue that fills a market order at once under the client order id \<^verbatim>\<open>lnk_1\<close> and
  sets the leverage 100; the size calculator copies 0.1. An engine that has record 0 among
  its synced fills, and settings that override the leverage of BTC with 50.
\<close>

definition buy_world :: world where
  "buy_world =
     quiet_world\<lparr>calculate_copy_size_ret := (\<lambda>tr. Some (1 / 10)),
                 clamp_order_quantity_ret := (\<lambda>tr. Some (1 / 10)),
                 open_market_order_ret := (\<lambda>tr. Some (True, Some ''lnk_1'')),
                 query_order_ret := (\<lambda>tr. Some (Some ''Filled''))\<rparr>"



definition btc50_settings :: settings where
  "btc50_settings = plain_settings\<lparr>leverage_config := [''BTC'' \<mapsto> 50]\<rparr>"

text \<open>
  Two rows of the fills table with the same transaction hash: an open of 1 BTC long and a
  second row for it. On the quiet venue the size calculator answers 0, so the open is
  turned down as too small.
\<close>

definition first_fill :: fill where
  "first_fill =
     \<lparr>f_id = Some 1, f_hash = None, f_tx_hash = Some ''0xabc'', f_timestamp = '''',
      f_coin = ''BTC'', f_side = ''BUY'', f_size = 1, f_price = 50000,
      f_direction = ''Open Long'', f_closed_pnl = 0, f_start_position = 0, f_oid = None\<rparr>"

definition second_fill :: fill where
  "second_fill = first_fill\<lparr>f_id := Some 2\<rparr>"

text \<open>A venue whose account may not trade any coin: every fill is filtered.\<close>

definition closed_shop_world :: world where
  "closed_shop_world = quiet_world\<lparr>is_symbol_allowed := (\<lambda>coin. False)\<rparr>"






text \<open>A reduce of 0.05 SOL out of a source position of 10, with realized profit.\<close>

definition sol_reduce :: fill where
  "sol_reduce =
     \<lparr>f_id = Some 4, f_hash = None, f_tx_hash = None, f_timestamp = '''',
      f_coin = ''SOL'', f_side = ''SELL'', f_size = 1 / 20, f_price = 100,
      f_direction = ''Close Long'', f_closed_pnl = 5, f_start_position = 10, f_oid = None\<rparr>"

section \<open>Lemmas: traces only grow\<close>

lemma trace_emit [simp]: "trace (emit e st) = e # trace st"
  by (simp add: emit_def)

lemma trace_set_forced_liquidation [simp]: "trace (set_forced_liquidation k m st) = trace st"
  by (simp add: set_forced_liquidation_def)

lemma forced_liquidations_emit [simp]: "forced_liquidations (emit e st) = forced_liquidations st"
  by (simp add: emit_def)






section \<open>Lemmas: records written by a reduce\<close>







section \<open>Lemmas: the open handler\<close>

declare wait_loop.simps [simp del]

lemma wait_loop_frame:
  "\<exists>evs. wait_loop w oid s st = st\<lparr>trace := evs @ trace st\<rparr>
         \<and> (\<forall>e \<in> set evs. \<not> is_order_placement e)"
proof (induction w oid s st rule: wait_loop.induct)
  case (1 w oid s st)
  show ?case
  proof (cases "total_seconds (now w (trace st) - s) < 30")
    case False
    then have "wait_loop w oid s st = st\<lparr>trace := [] @ trace st\<rparr>"
      by (subst wait_loop.simps) simp
    then show ?thesis by fastforce
  next
    case True
    show ?thesis
    proof (cases "query_order_ret w (QueryOrder oid True # trace st)")
      case None
      with True have "wait_loop w oid s st = st\<lparr>trace := [QueryOrder oid True] @ trace st\<rparr>"
        by (subst wait_loop.simps) (simp add: emit_def)
      then show ?thesis by fastforce
    next
      case (Some ans)
      show ?thesis
      proof (cases "ans = None \<or> ans = Some ''Filled'' \<or> ans = Some ''Cancelled''
                     \<or> ans = Some ''Rejected''")
        case stop: True
        with True Some have "wait_loop w oid s st = st\<lparr>trace := [QueryOrder oid True] @ trace st\<rparr>"
          by (subst wait_loop.simps) (auto simp: emit_def)
        then show ?thesis by fastforce
      next
        case go: False
        then obtain status where status: "ans = Some status" "status \<noteq> ''Filled''"
            "\<not> (status = ''Cancelled'' \<or> status = ''Rejected'')"
          by (cases ans) auto
        let ?st' = "emit (Sleep 1) (emit (QueryOrder oid True) st)"
        from "1.IH"[OF True Some status(1) status(2) status(3)]
        obtain evs where evs: "wait_loop w oid s ?st' = ?st'\<lparr>trace := evs @ trace ?st'\<rparr>"
            "\<forall>e \<in> set evs. \<not> is_order_placement e"
          by blast
        from True Some status have "wait_loop w oid s st = wait_loop w oid s ?st'"
          by (subst wait_loop.simps) simp
        with evs have "wait_loop w oid s st
                         = st\<lparr>trace := (evs @ [Sleep 1, QueryOrder oid True]) @ trace st\<rparr>"
          by (simp add: emit_def)
        moreover from evs have "\<forall>e \<in> set (evs @ [Sleep 1, QueryOrder oid True]). \<not> is_order_placement e"
          by auto
        ultimately show ?thesis by blast
      qed
    qed
  qed
qed

lemma wait_for_order_execution_frame:
  "\<exists>evs. wait_for_order_execution w oid st = st\<lparr>trace := evs @ trace st\<rparr>
         \<and> (\<forall>e \<in> set evs. \<not> is_order_placement e)"
  unfolding wait_for_order_execution_def by (rule wait_loop_frame)

lemma order_placements_append [simp]:
  "order_placements (xs @ ys) = order_placements xs + order_placements ys"
  by (simp add: order_placements_def)

lemma order_placements_Cons [simp]:
  "order_placements (e # tr) = (if is_order_placement e then 1 else 0) + order_placements tr"
  by (simp add: order_placements_def)

lemma order_placements_none:
  "\<forall>e \<in> set evs. \<not> is_order_placement e \<Longrightarrow> order_placements evs = 0"
  by (simp add: order_placements_def filter_empty_conv)

lemma open_succeeded_placements:
  "order_placements (trace (open_succeeded cfg w symbol side qty price rid is_twap twap_oid lev new
      oid st)) = order_placements (trace st)"
proof -
  obtain evs where evs: "wait_for_order_execution w oid st = st\<lparr>trace := evs @ trace st\<rparr>"
      "\<forall>e \<in> set evs. \<not> is_order_placement e"
    using wait_for_order_execution_frame by blast
  show ?thesis
    unfolding open_succeeded_def Let_def evs(1)
    by (simp add: order_placements_none[OF evs(2)] add_synced_fill_def emit_def
          split: prod.splits)
qed



lemma mark_fill_trace:
  "order_placements (trace (mark_fill cfg rid status st)) = order_placements (trace st)"
  by (simp add: mark_fill_def update_fill_status_def emit_def)

lemma open_succeeded_trace:
  "\<exists>evs. trace (open_succeeded cfg w symbol side qty price rid is_twap twap_oid lev new oid st)
           = evs @ trace st
         \<and> (\<forall>e \<in> set evs. \<not> is_order_placement e)"
proof -
  obtain evs where evs: "wait_for_order_execution w oid st = st\<lparr>trace := evs @ trace st\<rparr>"
      "\<forall>e \<in> set evs. \<not> is_order_placement e"
    using wait_for_order_execution_frame by blast
  show ?thesis
    unfolding open_succeeded_def Let_def evs(1)
    using evs(2)
    by (auto simp: add_synced_fill_def emit_def split: prod.splits
          intro: exI[of _ "_ # evs"] exI[of _ "_ # _ # evs"] exI[of _ "_ # _ # _ # evs"]
                 exI[of _ "_ # _ # _ # _ # evs"])
qed

lemma open_succeeded_leverage_settings:
  "open_succeeded (cfg\<lparr>leverage_config := lc, MAX_LEVERAGE := m\<rparr>) w symbol side qty price rid
     is_twap twap_oid lev new oid st
   = open_succeeded cfg w symbol side qty price rid is_twap twap_oid lev new oid st"
  by (simp add: open_succeeded_def)

lemma mark_fill_leverage_settings:
  "mark_fill (cfg\<lparr>leverage_config := lc, MAX_LEVERAGE := m\<rparr>) rid status st
   = mark_fill cfg rid status st"
  by (simp add: mark_fill_def update_fill_status_def)

lemma mark_fill_venue_calls:
  "filter is_venue_call (trace (mark_fill cfg rid status st)) = filter is_venue_call (trace st)"
  by (simp add: mark_fill_def update_fill_status_def)

lemma open_except_trace:
  "\<exists>evs. trace (fst (open_except cfg w symbol side sz price rid new st)) = evs @ trace st
         \<and> (\<forall>e \<in> set evs. \<not> is_order_placement e)"
  by (cases "has_notifier cfg"; cases "has_db cfg"; cases "truthy_id rid"; cases new)
     (simp_all add: open_except_def mark_fill_def update_fill_status_def Let_def)

lemma mark_fill_events:
  "\<exists>evs. trace (mark_fill cfg rid status st) = evs @ trace st
         \<and> (\<forall>e \<in> set evs. \<not> is_order_placement e)"
  by (cases "has_db cfg"; cases "truthy_id rid")
     (simp_all add: mark_fill_def update_fill_status_def)

lemma submit_market_order_trace:
  "\<exists>evs. trace (fst (submit_market_order cfg w symbol side sz price rid is_twap twap_oid lev qty st))
           = evs @ OpenMarketOrder symbol side qty # QueryPositions None # trace st
         \<and> (\<forall>e \<in> set evs. \<not> is_order_placement e)"
proof -
  let ?s5 = "emit (OpenMarketOrder symbol side qty) (emit (QueryPositions None) st)"
  show ?thesis
  proof (cases "open_market_order_ret w (trace ?s5)")
    case None
    then show ?thesis
      using open_except_trace[of cfg w symbol side sz price rid _ ?s5]
      by (simp add: submit_market_order_def Let_def)
  next
    case (Some ans)
    obtain success order_id where ans: "ans = (success, order_id)"
      by (cases ans)
    show ?thesis
    proof (cases "success \<and> truthy_str order_id")
      case True
      with Some ans show ?thesis
        using open_succeeded_trace[of cfg w symbol side qty price rid is_twap twap_oid lev _
                "the order_id" ?s5]
        by (simp add: submit_market_order_def Let_def)
    next
      case False
      obtain evs where "trace (mark_fill cfg rid ''failed'' ?s5) = evs @ trace ?s5"
          "\<forall>e \<in> set evs. \<not> is_order_placement e"
        using mark_fill_events by blast
      with False Some ans show ?thesis
        by (cases "has_notifier cfg") (auto simp: submit_market_order_def Let_def)
    qed
  qed
qed


lemma submit_market_order_leverage_settings:
  "filter is_venue_call
     (trace (fst (submit_market_order (cfg\<lparr>leverage_config := lc, MAX_LEVERAGE := m\<rparr>) w symbol side
                    sz price rid is_twap twap_oid lev qty st)))
   = filter is_venue_call
       (trace (fst (submit_market_order cfg w symbol side sz price rid is_twap twap_oid lev qty st)))"
  by (auto simp: submit_market_order_def open_except_def Let_def
        open_succeeded_leverage_settings mark_fill_leverage_settings mark_fill_venue_calls
      split: option.splits)






section \<open>Lemmas: the seen hashes are never forgotten\<close>

lemma synced_tx_hashes_emit [simp]: "synced_tx_hashes (emit e st) = synced_tx_hashes st"
  by (simp add: emit_def)

lemma synced_tx_hashes_set_forced_liquidation [simp]:
  "synced_tx_hashes (set_forced_liquidation k m st) = synced_tx_hashes st"
  by (simp add: set_forced_liquidation_def)

lemma synced_tx_hashes_update_fill_status [simp]:
  "synced_tx_hashes (update_fill_status cfg i status st) = synced_tx_hashes st"
  by (simp add: update_fill_status_def)

lemma synced_tx_hashes_mark_synced [simp]:
  "synced_tx_hashes (mark_synced cfg rid status st) = synced_tx_hashes st"
  by (simp add: mark_synced_def split: option.splits)

lemma synced_tx_hashes_add_synced [simp]:
  "synced_tx_hashes (add_synced rid st) = synced_tx_hashes st"
  by (simp add: add_synced_def split: option.splits)

lemma synced_tx_hashes_mark_fill [simp]:
  "synced_tx_hashes (mark_fill cfg rid status st) = synced_tx_hashes st"
  by (simp add: mark_fill_def)

lemma synced_tx_hashes_sync_failed [simp]:
  "synced_tx_hashes (sync_failed cfg r st) = synced_tx_hashes st"
  by (simp add: sync_failed_def split: option.splits)

lemma synced_tx_hashes_close_one [simp]:
  "synced_tx_hashes (fst (close_one cfg w sz full coin p (st, n))) = synced_tx_hashes st"
  by (auto simp: close_one_def close_succeeded_def close_failed_def notify_close_failed_def
        Let_def split: prod.splits option.splits)

lemma synced_tx_hashes_close_loop [simp]:
  "synced_tx_hashes (fst (foldl (\<lambda>acc p. close_one cfg w sz full coin p acc) (st, n) ps))
     = synced_tx_hashes st"
proof (induction ps arbitrary: st n)
  case Nil
  then show ?case by simp
next
  case (Cons p ps)
  obtain st' n' where one: "close_one cfg w sz full coin p (st, n) = (st', n')"
    by (cases "close_one cfg w sz full coin p (st, n)")
  have "synced_tx_hashes st' = synced_tx_hashes st"
    using synced_tx_hashes_close_one[of cfg w sz full coin p st n] one by simp
  with Cons.IH[of st' n'] one show ?case by simp
qed

lemma synced_tx_hashes_handle_close_position [simp]:
  "synced_tx_hashes (handle_close_position cfg w symbol side sz price sp st) = synced_tx_hashes st"
  by (simp add: handle_close_position_def notify_close_failed_def Let_def split: option.splits)

lemma synced_tx_hashes_force_close_one [simp]:
  "synced_tx_hashes (fst (force_close_one cfg w p (st, n))) = synced_tx_hashes st"
  by (simp add: force_close_one_def Let_def split: option.splits)

lemma synced_tx_hashes_force_close_loop [simp]:
  "synced_tx_hashes (fst (foldl (\<lambda>acc p. force_close_one cfg w p acc) (st, n) ps))
     = synced_tx_hashes st"
proof (induction ps arbitrary: st n)
  case Nil
  then show ?case by simp
next
  case (Cons p ps)
  obtain st' n' where one: "force_close_one cfg w p (st, n) = (st', n')"
    by (cases "force_close_one cfg w p (st, n)")
  have "synced_tx_hashes st' = synced_tx_hashes st"
    using synced_tx_hashes_force_close_one[of cfg w p st n] one by simp
  with Cons.IH[of st' n'] one show ?case by simp
qed

lemma synced_tx_hashes_handle_force_close_all [simp]:
  "synced_tx_hashes (handle_force_close_all cfg w symbol coin st) = synced_tx_hashes st"
proof -
  have "synced_tx_hashes st2 = synced_tx_hashes s1"
    if "foldl (\<lambda>acc p. force_close_one cfg w p acc) (s1, 0) ps = (st2, k)" for st2 s1 k ps
    using synced_tx_hashes_force_close_loop[of cfg w s1 0 ps] that by simp
  then show ?thesis
    by (auto simp: handle_force_close_all_def Let_def split: option.splits prod.splits)
qed

lemma synced_tx_hashes_reduce_loop [simp]:
  "synced_tx_hashes (foldl (\<lambda>acc p. emit (ClosePosition p (IsHalf False)) acc) st ps)
     = synced_tx_hashes st"
  by (induction ps arbitrary: st) simp_all

lemma synced_tx_hashes_handle_reduce_position [simp]:
  "synced_tx_hashes (handle_reduce_position cfg w symbol coin st) = synced_tx_hashes st"
  by (simp add: handle_reduce_position_def Let_def split: option.splits)

lemma synced_tx_hashes_open_succeeded [simp]:
  "synced_tx_hashes (open_succeeded cfg w symbol side qty price rid is_twap twap_oid lev new oid st)
     = synced_tx_hashes st"
proof -
  obtain evs where evs: "wait_for_order_execution w oid st = st\<lparr>trace := evs @ trace st\<rparr>"
    using wait_for_order_execution_frame by blast
  show ?thesis
    unfolding open_succeeded_def Let_def evs
    by (simp add: add_synced_fill_def emit_def split: prod.splits)
qed

lemma synced_tx_hashes_submit_market_order [simp]:
  "synced_tx_hashes (fst (submit_market_order cfg w symbol side sz price rid is_twap twap_oid lev
                            qty st)) = synced_tx_hashes st"
  by (auto simp: submit_market_order_def open_except_def Let_def split: option.splits)

lemma synced_tx_hashes_handle_open_position [simp]:
  "synced_tx_hashes (fst (handle_open_position cfg w symbol side sz price rid is_twap twap_oid st))
     = synced_tx_hashes st"
  by (auto simp: handle_open_position_def open_except_def Let_def split: option.splits)

lemma synced_tx_hashes_open_and_unmark [simp]:
  "synced_tx_hashes (open_and_unmark cfg w r symbol side is_twap twap_oid st)
     = synced_tx_hashes st"
proof -
  obtain st1 ok where run: "handle_open_position cfg w symbol side (f_size r) (f_price r)
                             (f_id r) is_twap twap_oid st = (st1, ok)"
    by (cases "handle_open_position cfg w symbol side (f_size r) (f_price r)
                 (f_id r) is_twap twap_oid st")
  have "synced_tx_hashes st1 = synced_tx_hashes st"
    using synced_tx_hashes_handle_open_position[of cfg w symbol side "f_size r"
            "f_price r" "f_id r" is_twap twap_oid st] run by simp
  with run show ?thesis by (simp add: open_and_unmark_def)
qed

lemma synced_tx_hashes_run_reverse [simp]:
  "synced_tx_hashes (run_reverse cfg w r symbol new_side st) = synced_tx_hashes st"
  by (simp add: run_reverse_def Let_def split: option.splits)

lemma synced_tx_hashes_reverse_fill [simp]:
  "synced_tx_hashes (reverse_fill cfg w r symbol new_side is_twap twap_oid st)
     = synced_tx_hashes st"
  by (simp add: reverse_fill_def Let_def split: option.splits)

lemma synced_tx_hashes_finish_fill:
  "synced_tx_hashes st \<subseteq> synced_tx_hashes (finish_fill cfg r st)"
  by (auto simp: finish_fill_def split: option.splits)

lemma synced_tx_hashes_dispatch_fill:
  "synced_tx_hashes st \<subseteq> synced_tx_hashes (dispatch_fill cfg w r symbol is_twap twap_oid st)"
proof -
  have fin: "synced_tx_hashes st \<subseteq> synced_tx_hashes (finish_fill cfg r s)"
    if "synced_tx_hashes s = synced_tx_hashes st" for s
    using synced_tx_hashes_finish_fill[of s cfg r] that by simp
  show ?thesis
    unfolding dispatch_fill_def Let_def
    by (auto split: option.splits intro!: fin[THEN subsetD])
qed

lemma synced_tx_hashes_sync_fresh_fill:
  "synced_tx_hashes st \<subseteq> synced_tx_hashes (sync_fresh_fill cfg w r st)"
proof -
  have "synced_tx_hashes st \<subseteq> synced_tx_hashes (dispatch_fill cfg w r symbol is_twap twap_oid s)"
    if "synced_tx_hashes s = synced_tx_hashes st" for s symbol is_twap twap_oid
    using synced_tx_hashes_dispatch_fill[of s cfg w r symbol is_twap twap_oid] that by simp
  then show ?thesis
    unfolding sync_fresh_fill_def Let_def by auto
qed

lemma synced_tx_hashes_sync_checked_fill:
  "synced_tx_hashes st \<subseteq> synced_tx_hashes (sync_checked_fill cfg w r st)"
proof -
  have "synced_tx_hashes st \<subseteq> synced_tx_hashes (sync_fresh_fill cfg w r s)"
    if "synced_tx_hashes s = synced_tx_hashes st" for s
    using synced_tx_hashes_sync_fresh_fill[of s cfg w r] that by simp
  then show ?thesis
    unfolding sync_checked_fill_def check_symbol_support_def validate_order_freshness_def Let_def
    by (auto split: option.splits)
qed

lemma synced_tx_hashes_sync_pending_fill:
  "synced_tx_hashes st \<subseteq> synced_tx_hashes (sync_pending_fill cfg w r st)"
  using synced_tx_hashes_sync_checked_fill[of st cfg w r]
        synced_tx_hashes_sync_checked_fill[of
          "st\<lparr>synced_tx_hashes := insert (the (f_tx_hash r)) (synced_tx_hashes st)\<rparr>" cfg w r]
  by (auto simp: sync_pending_fill_def)

lemma synced_tx_hashes_sync_fill_record:
  "synced_tx_hashes st \<subseteq> synced_tx_hashes (sync_fill_record cfg w r st)"
  using synced_tx_hashes_sync_pending_fill[of st cfg w r]
  by (auto simp: sync_fill_record_def split: option.splits)

lemma synced_tx_hashes_sync_fill_records:
  "synced_tx_hashes st \<subseteq> synced_tx_hashes (sync_fill_records cfg w rs st)"
proof (induction rs arbitrary: st)
  case Nil
  then show ?case by simp
next
  case (Cons r rs)
  from synced_tx_hashes_sync_fill_record[of st cfg w r]
       Cons.IH[of "sync_fill_record cfg w r st"]
  show ?case by auto
qed

section \<open>Lemmas: closing everything\<close>





lemma not_zero_hash: "length h \<noteq> 66 \<Longrightarrow> h \<noteq> zero_hash"
  by (auto simp: zero_hash_def)


section \<open>Properties: the two full-close thresholds\<close>




section \<open>Properties: the order of the reverse rule and the full-close rule\<close>




section \<open>Properties: one order per event\<close>




section \<open>Properties: partial close\<close>




section \<open>Properties: the hash is remembered at first sight\<close>

text \<open>
  C10. Let the fill \<open>r\<close> carry the transaction hash \<open>h\<close>, neither empty nor the zero
  hash, and let it not be skipped on entry (its id is not among the synced fills; without
  an id, its hash was not seen).
  \<^item> If \<open>h\<close> was not seen before, \<open>h\<close> is remembered first and the checks of the coin
    and of the age, and everything after them, run on the state that holds it.
  \<^item> So \<open>h\<close> is among the seen hashes after the synchronisation of \<open>r\<close>, whatever the
    allowlist, the venue, the age filter and the handlers did.
  \<^item> Whatever fills are synchronised in between, a later fill with the hash \<open>h\<close> is
    either skipped on entry or marked as a duplicate; what it adds to the trace is
    neither a call to the venue nor a notification. It reaches no handler.
\<close>

theorem tx_hash_remembered_before_checks:
  assumes "h \<noteq> []" and "h \<noteq> zero_hash"
      and "f_tx_hash r = Some h" and "f_tx_hash later = Some h"
      and "case f_id r of
             None \<Rightarrow> \<not> (truthy_str (hash_or_tx_hash r)
                        \<and> the (hash_or_tx_hash r) \<in> synced_tx_hashes st)
           | Some i \<Rightarrow> i \<notin> synced_fills st"
  shows "(h \<notin> synced_tx_hashes st \<longrightarrow>
            sync_fill_record cfg w r st
              = sync_checked_fill cfg w r (st\<lparr>synced_tx_hashes := insert h (synced_tx_hashes st)\<rparr>))
       \<and> h \<in> synced_tx_hashes (sync_fill_record cfg w r st)
       \<and> (let st2 = sync_fill_records cfg w between (sync_fill_record cfg w r st)
          in (sync_fill_record cfg w later st2 = st2
              \<or> sync_fill_record cfg w later st2 = mark_synced cfg (f_id later) ''duplicate'' st2)
             \<and> (\<exists>evs. trace (sync_fill_record cfg w later st2) = evs @ trace st2
                       \<and> (\<forall>e \<in> set evs. \<not> is_venue_call e \<and> \<not> is_notification e)))"
proof -
  let ?st1 = "sync_fill_record cfg w r st"
  let ?st2 = "sync_fill_records cfg w between ?st1"
  have entry: "?st1 = sync_pending_fill cfg w r st"
    using assms(5) by (auto simp: sync_fill_record_def split: option.splits)
  have first: "?st1 = sync_checked_fill cfg w r
                        (st\<lparr>synced_tx_hashes := insert h (synced_tx_hashes st)\<rparr>)"
    if "h \<notin> synced_tx_hashes st"
    unfolding entry using assms(1-3) that
    by (simp add: sync_pending_fill_def truthy_str_def)
  have remembered: "h \<in> synced_tx_hashes ?st1"
  proof (cases "h \<in> synced_tx_hashes st")
    case True
    then show ?thesis
      using synced_tx_hashes_sync_fill_record[of st cfg w r] by auto
  next
    case False
    show ?thesis
      unfolding first[OF False]
      using synced_tx_hashes_sync_checked_fill[of
              "st\<lparr>synced_tx_hashes := insert h (synced_tx_hashes st)\<rparr>" cfg w r]
      by auto
  qed
  then have seen: "h \<in> synced_tx_hashes ?st2"
    using synced_tx_hashes_sync_fill_records[of ?st1 cfg w between] by auto
  have pending: "sync_pending_fill cfg w later ?st2 = mark_synced cfg (f_id later) ''duplicate'' ?st2"
    using assms(1,2,4) seen by (simp add: sync_pending_fill_def truthy_str_def)
  have either: "sync_fill_record cfg w later ?st2 = ?st2
                \<or> sync_fill_record cfg w later ?st2 = mark_synced cfg (f_id later) ''duplicate'' ?st2"
    using pending by (auto simp: sync_fill_record_def split: option.splits)
  have quiet: "\<exists>evs. trace (mark_synced cfg (f_id later) ''duplicate'' ?st2) = evs @ trace ?st2
                     \<and> (\<forall>e \<in> set evs. \<not> is_venue_call e \<and> \<not> is_notification e)"
    by (cases "f_id later"; cases "has_db cfg")
       (simp_all add: mark_synced_def update_fill_status_def)
  have "\<exists>evs. trace (sync_fill_record cfg w later ?st2) = evs @ trace ?st2
              \<and> (\<forall>e \<in> set evs. \<not> is_venue_call e \<and> \<not> is_notification e)"
    using either
  proof
    assume "sync_fill_record cfg w later ?st2 = ?st2"
    then have "trace (sync_fill_record cfg w later ?st2) = [] @ trace ?st2"
      by simp
    then show ?thesis by fastforce
  next
    assume "sync_fill_record cfg w later ?st2 = mark_synced cfg (f_id later) ''duplicate'' ?st2"
    with quiet show ?thesis by simp
  qed
  with first remembered either show ?thesis
    by (simp add: Let_def)
qed

text \<open>
  The theorem at work where no coin may be traded: row 1 is filtered, its hash is
  remembered all the same, and row 2 with the same hash is marked as a duplicate.
\<close>

theorem tx_hash_remembered_before_checks_witness:
  "trace (sync_fill_record plain_settings closed_shop_world first_fill fresh_mgr)
     = [UpdateFillStatus 1 ''filtered'']
   \<and> ''0xabc'' \<in> synced_tx_hashes (sync_fill_record plain_settings closed_shop_world first_fill fresh_mgr)
   \<and> (sync_fill_record plain_settings closed_shop_world second_fill
         (sync_fill_record plain_settings closed_shop_world first_fill fresh_mgr)
       = sync_fill_record plain_settings closed_shop_world first_fill fresh_mgr
       \<or> sync_fill_record plain_settings closed_shop_world second_fill
           (sync_fill_record plain_settings closed_shop_world first_fill fresh_mgr)
         = mark_synced plain_settings (Some 2) ''duplicate''
             (sync_fill_record plain_settings closed_shop_world first_fill fresh_mgr))"
proof -
  have h: "''0xabc'' \<noteq> []" "''0xabc'' \<noteq> zero_hash"
    by (simp_all add: not_zero_hash)
  have rows: "f_tx_hash first_fill = Some ''0xabc''" "f_tx_hash second_fill = Some ''0xabc''"
             "f_id second_fill = Some 2"
    by (simp_all add: first_fill_def second_fill_def)
  have entry: "case f_id first_fill of
                 None \<Rightarrow> \<not> (truthy_str (hash_or_tx_hash first_fill)
                            \<and> the (hash_or_tx_hash first_fill) \<in> synced_tx_hashes fresh_mgr)
               | Some i \<Rightarrow> i \<notin> synced_fills fresh_mgr"
    by (simp add: first_fill_def fresh_mgr_def)
  have filtered: "trace (sync_fill_record plain_settings closed_shop_world first_fill fresh_mgr)
                    = [UpdateFillStatus 1 ''filtered'']"
    by (simp add: sync_fill_record_def sync_pending_fill_def sync_checked_fill_def
          check_symbol_support_def mark_synced_def update_fill_status_def truthy_str_def h
          emit_def first_fill_def fresh_mgr_def plain_settings_def closed_shop_world_def
          quiet_world_def)
  note inst = tx_hash_remembered_before_checks[OF h rows(1,2) entry,
      where cfg = plain_settings and w = closed_shop_world and between = "[]"]
  from inst[THEN conjunct2, THEN conjunct1] inst[THEN conjunct2, THEN conjunct2] filtered rows(3)
  show ?thesis
    by (simp add: Let_def)
qed

section \<open>Properties: duplicate transaction hashes\<close>



section \<open>Properties: recovery from the position-is-zero reject\<close>




section \<open>Properties: the order-id mapping\<close>





section \<open>Properties: forced-liquidation memo\<close>

text \<open>
  C8. A memo stored for \<open>(symbol, side)\<close> with time \<open>T\<close> is returned, and the
  engine's state left as it is, by every lookup made less than 300 seconds after \<open>T\<close>;
  a lookup made 300 seconds after \<open>T\<close> or later returns nothing and deletes the entry.
  Times are in microseconds, so 300 seconds are 300000000.
\<close>

theorem forced_memo_ttl:
  assumes "forced_liquidations st (pos_key symbol side) = Some m"
  shows "(t - liq_time m < 300000000 \<longrightarrow>
            get_forced_liquidation t symbol side st = (Some m, st)) \<and>
         (t - liq_time m \<ge> 300000000 \<longrightarrow>
            fst (get_forced_liquidation t symbol side st) = None \<and>
            forced_liquidations (snd (get_forced_liquidation t symbol side st))
              (pos_key symbol side) = None)"
  using assms by (auto simp: get_forced_liquidation_def total_seconds_def)

text \<open>
  The theorem at work on a record stored when the clock read 1 s: it is returned at
  300 s (299 s later) and gone at 302 s (301 s later).
\<close>

theorem forced_memo_ttl_witness:
  "get_forced_liquidation 300000000 ''SOLUSDT'' ''Buy'' recorded_mgr = (Some sol_record, recorded_mgr)
   \<and> fst (get_forced_liquidation 302000000 ''SOLUSDT'' ''Buy'' recorded_mgr) = None
   \<and> forced_liquidations (snd (get_forced_liquidation 302000000 ''SOLUSDT'' ''Buy'' recorded_mgr))
        (pos_key ''SOLUSDT'' ''Buy'') = None"
proof -
  have stored: "forced_liquidations recorded_mgr (pos_key ''SOLUSDT'' ''Buy'') = Some sol_record"
    by (simp add: recorded_mgr_def)
  have t: "liq_time sol_record = 1000000"
    by (simp add: sol_record_def forced_record_def)
  from forced_memo_ttl[OF stored, of 300000000] forced_memo_ttl[OF stored, of 302000000]
  show ?thesis by (simp add: t)
qed

section \<open>Properties: leverage before a market order\<close>

text \<open>
  C9, as the code has it. The configured leverage of a symbol is the per-coin override
  when the table has one for the coin and the global default otherwise; this is what
  \<^verbatim>\<open>_get_leverage_for_symbol\<close> returns. The open handler does not send it to the
  venue: whenever it places a market order it has, before that, calculated the size,
  called \<^verbatim>\<open>set_max_leverage(symbol, use_exchange_max=True)\<close> and clamped the quantity,
  and its calls to the venue are the same whatever the leverage table and the default
  are.
\<close>

theorem leverage_set_to_exchange_maximum:
  "(leverage_config cfg (upper (ensure_short_symbol w symbol)) = Some l
      \<longrightarrow> get_leverage_for_symbol cfg w symbol = l)
   \<and> (leverage_config cfg (upper (ensure_short_symbol w symbol)) = None
      \<longrightarrow> get_leverage_for_symbol cfg w symbol = MAX_LEVERAGE cfg)
   \<and> (order_placements (trace (fst (handle_open_position cfg w symbol side sz price record_id
                                      is_twap twap_oid st)))
         > order_placements (trace st)
      \<longrightarrow> (\<exists>evs qty copy_size.
             trace (fst (handle_open_position cfg w symbol side sz price record_id
                           is_twap twap_oid st))
               = evs @ [OpenMarketOrder symbol side qty, QueryPositions None,
                        ClampOrderQuantity symbol price copy_size, SetMaxLeverage symbol True,
                        CalculateCopySize sz price symbol] @ trace st
             \<and> (\<forall>e \<in> set evs. \<not> is_order_placement e)))
   \<and> filter is_venue_call
        (trace (fst (handle_open_position (cfg\<lparr>leverage_config := table, MAX_LEVERAGE := fallback\<rparr>)
                       w symbol side sz price record_id is_twap twap_oid st)))
     = filter is_venue_call
         (trace (fst (handle_open_position cfg w symbol side sz price record_id
                        is_twap twap_oid st)))"
proof (intro conjI impI)
  assume "leverage_config cfg (upper (ensure_short_symbol w symbol)) = Some l"
  then show "get_leverage_for_symbol cfg w symbol = l"
    by (simp add: get_leverage_for_symbol_def)
next
  assume "leverage_config cfg (upper (ensure_short_symbol w symbol)) = None"
  then show "get_leverage_for_symbol cfg w symbol = MAX_LEVERAGE cfg"
    by (simp add: get_leverage_for_symbol_def)
next
  let ?st' = "fst (handle_open_position cfg w symbol side sz price record_id is_twap twap_oid st)"
  assume more: "order_placements (trace st) < order_placements (trace ?st')"
  show "\<exists>evs qty copy_size.
          trace ?st' = evs @ [OpenMarketOrder symbol side qty, QueryPositions None,
                              ClampOrderQuantity symbol price copy_size, SetMaxLeverage symbol True,
                              CalculateCopySize sz price symbol] @ trace st
          \<and> (\<forall>e \<in> set evs. \<not> is_order_placement e)"
  proof (cases "truthy_id record_id \<and> the record_id \<in> synced_fills st")
    case True
    with more show ?thesis by (simp add: handle_open_position_def)
  next
    case pending: False
    let ?s1 = "emit (CalculateCopySize sz price symbol) st"
    show ?thesis
    proof (cases "calculate_copy_size_ret w (trace ?s1)")
      case None
      with pending more show ?thesis
        by (auto simp: handle_open_position_def open_except_def Let_def mark_fill_trace)
    next
      case (Some copy_size)
      note copy = this
      show ?thesis
      proof (cases "copy_size \<le> 0")
        case True
        with pending copy more show ?thesis
          by (auto simp: handle_open_position_def Let_def mark_fill_trace)
      next
        case positive: False
        let ?s2 = "emit (SetMaxLeverage symbol True) ?s1"
        show ?thesis
        proof (cases "set_max_leverage_ret w (trace ?s2)")
          case None
          with pending copy positive more show ?thesis
            by (auto simp: handle_open_position_def open_except_def Let_def mark_fill_trace)
        next
          case (Some leverage)
          note lev = this
          let ?s3 = "emit (ClampOrderQuantity symbol price copy_size) ?s2"
          show ?thesis
          proof (cases "clamp_order_quantity_ret w (trace ?s3)")
            case None
            with pending copy positive lev more show ?thesis
              by (auto simp: handle_open_position_def open_except_def Let_def mark_fill_trace)
          next
            case (Some qty)
            note qty = this
            show ?thesis
            proof (cases "qty < min_position_size cfg")
              case True
              with pending copy positive lev qty more show ?thesis
                by (auto simp: handle_open_position_def Let_def mark_fill_trace)
            next
              case enough: False
              have run: "?st' = fst (submit_market_order cfg w symbol side sz price record_id
                                       is_twap twap_oid leverage qty ?s3)"
                using pending copy positive lev qty enough
                by (auto simp: handle_open_position_def Let_def)
              obtain evs where "trace ?st' = evs @ OpenMarketOrder symbol side qty
                                  # QueryPositions None # trace ?s3"
                  "\<forall>e \<in> set evs. \<not> is_order_placement e"
                unfolding run using submit_market_order_trace by blast
              then show ?thesis by auto
            qed
          qed
        qed
      qed
    qed
  qed
next
  show "filter is_venue_call
          (trace (fst (handle_open_position (cfg\<lparr>leverage_config := table, MAX_LEVERAGE := fallback\<rparr>)
                         w symbol side sz price record_id is_twap twap_oid st)))
        = filter is_venue_call
            (trace (fst (handle_open_position cfg w symbol side sz price record_id
                           is_twap twap_oid st)))"
    by (auto simp: handle_open_position_def open_except_def Let_def
          submit_market_order_leverage_settings mark_fill_leverage_settings mark_fill_venue_calls
        split: option.splits)
qed

text \<open>
  The theorem at work: for BTCUSDT the overridden settings give 50 and the plain ones the
  default 20; the handler's market order comes after the leverage call; and both settings
  lead to the same calls to the venue.
\<close>

theorem leverage_set_to_exchange_maximum_witness:
  "get_leverage_for_symbol btc50_settings buy_world ''BTCUSDT'' = 50
   \<and> get_leverage_for_symbol plain_settings buy_world ''BTCUSDT'' = 20
   \<and> (\<exists>evs qty copy_size.
         trace (fst (handle_open_position plain_settings buy_world ''BTCUSDT'' ''Buy'' 1 50000
                       (Some 7) False None fresh_mgr))
           = evs @ [OpenMarketOrder ''BTCUSDT'' ''Buy'' qty, QueryPositions None,
                    ClampOrderQuantity ''BTCUSDT'' 50000 copy_size,
                    SetMaxLeverage ''BTCUSDT'' True, CalculateCopySize 1 50000 ''BTCUSDT'']
               @ trace fresh_mgr
         \<and> (\<forall>e \<in> set evs. \<not> is_order_placement e))
   \<and> filter is_venue_call
        (trace (fst (handle_open_position btc50_settings buy_world ''BTCUSDT'' ''Buy'' 1 50000
                       (Some 7) False None fresh_mgr)))
     = filter is_venue_call
         (trace (fst (handle_open_position plain_settings buy_world ''BTCUSDT'' ''Buy'' 1 50000
                        (Some 7) False None fresh_mgr)))"
proof -
  have coin: "upper (ensure_short_symbol buy_world ''BTCUSDT'') = ''BTC''"
    by (simp add: buy_world_def quiet_world_def startswith_def upper_def upper_char_def)
  have table: "leverage_config btc50_settings ''BTC'' = Some 50"
              "leverage_config plain_settings ''BTC'' = None"
              "MAX_LEVERAGE plain_settings = 20"
    by (simp_all add: btc50_settings_def plain_settings_def)
  have same: "plain_settings\<lparr>leverage_config := [''BTC'' \<mapsto> 50], MAX_LEVERAGE := 20\<rparr> = btc50_settings"
    by (simp add: btc50_settings_def plain_settings_def)
  have placed: "order_placements (trace fresh_mgr)
                < order_placements (trace (fst (handle_open_position plain_settings buy_world
                     ''BTCUSDT'' ''Buy'' 1 50000 (Some 7) False None fresh_mgr)))"
    by (simp add: handle_open_position_def submit_market_order_def truthy_id_def truthy_str_def
          buy_world_def quiet_world_def plain_settings_def fresh_mgr_def Let_def
          open_succeeded_placements)
  note at_btc50 = leverage_set_to_exchange_maximum[where cfg = btc50_settings and w = buy_world
      and symbol = "''BTCUSDT''" and l = 50]
  note at_plain = leverage_set_to_exchange_maximum[where cfg = plain_settings and w = buy_world
      and symbol = "''BTCUSDT''" and side = "''Buy''" and sz = 1 and price = 50000
      and record_id = "Some 7" and is_twap = False and twap_oid = None and st = fresh_mgr
      and table = "[''BTC'' \<mapsto> 50]" and fallback = 20]
  from at_btc50[THEN conjunct1] at_plain[THEN conjunct2, THEN conjunct1]
       at_plain[THEN conjunct2, THEN conjunct2, THEN conjunct1]
       at_plain[THEN conjunct2, THEN conjunct2, THEN conjunct2]
       coin table placed
  show ?thesis
    unfolding same by simp
qed

text \<open>
  The claim as worded fails: with the leverage of BTC overridden to 50, the handler asks
  the venue for the exchange's maximum, is told 100, places the order and reports the
  leverage 100; the configured 50 reaches neither the venue nor the notification.
\<close>

theorem configured_leverage_not_set_counterexample:
  "get_leverage_for_symbol btc50_settings buy_world ''BTCUSDT'' = 50
   \<and> trace (fst (handle_open_position btc50_settings buy_world ''BTCUSDT'' ''Buy'' 1 50000
                    (Some 7) False None fresh_mgr))
     = [SendTradeSuccess ''BTCUSDT'' ''Buy'' (1 / 10) 50000 ''lnk_1'' 100 True False,
        ClientGetExecutions ''BTCUSDT'' (- 30000) 0,
        QueryOrder ''lnk_1'' True,
        OpenMarketOrder ''BTCUSDT'' ''Buy'' (1 / 10),
        QueryPositions None,
        ClampOrderQuantity ''BTCUSDT'' 50000 (1 / 10),
        SetMaxLeverage ''BTCUSDT'' True,
        CalculateCopySize 1 50000 ''BTCUSDT'']"
proof -
  let ?s3 = "fresh_mgr\<lparr>trace := [ClampOrderQuantity ''BTCUSDT'' 50000 (1 / 10),
                                   SetMaxLeverage ''BTCUSDT'' True,
                                   CalculateCopySize 1 50000 ''BTCUSDT'']\<rparr>"
  let ?s5 = "fresh_mgr\<lparr>trace := [OpenMarketOrder ''BTCUSDT'' ''Buy'' (1 / 10), QueryPositions None,
                                   ClampOrderQuantity ''BTCUSDT'' 50000 (1 / 10),
                                   SetMaxLeverage ''BTCUSDT'' True,
                                   CalculateCopySize 1 50000 ''BTCUSDT'']\<rparr>"
  have lev: "get_leverage_for_symbol btc50_settings buy_world ''BTCUSDT'' = 50"
    by (simp add: get_leverage_for_symbol_def btc50_settings_def plain_settings_def buy_world_def
          quiet_world_def startswith_def upper_def upper_char_def)
  have first: "handle_open_position btc50_settings buy_world ''BTCUSDT'' ''Buy'' 1 50000
                 (Some 7) False None fresh_mgr
               = submit_market_order btc50_settings buy_world ''BTCUSDT'' ''Buy'' 1 50000
                   (Some 7) False None 100 (1 / 10) ?s3"
    by (simp add: handle_open_position_def truthy_id_def buy_world_def quiet_world_def
          btc50_settings_def plain_settings_def fresh_mgr_def emit_def Let_def)
  have second: "submit_market_order btc50_settings buy_world ''BTCUSDT'' ''Buy'' 1 50000
                  (Some 7) False None 100 (1 / 10) ?s3
                = (open_succeeded btc50_settings buy_world ''BTCUSDT'' ''Buy'' (1 / 10) 50000
                     (Some 7) False None 100 True ''lnk_1'' ?s5, True)"
    by (simp add: submit_market_order_def truthy_str_def buy_world_def quiet_world_def
          emit_def Let_def)
  have clock: "now buy_world (trace ?s5) = 0"
    by (simp add: buy_world_def quiet_world_def)
  have wait: "wait_for_order_execution buy_world ''lnk_1'' ?s5 = emit (QueryOrder ''lnk_1'' True) ?s5"
    unfolding wait_for_order_execution_def clock
    by (subst wait_loop.simps) (simp add: clock total_seconds_def buy_world_def quiet_world_def)
  have clock': "now buy_world (QueryOrder ''lnk_1'' True # trace ?s5) = 0"
    by (simp add: buy_world_def quiet_world_def)
  have third: "trace (open_succeeded btc50_settings buy_world ''BTCUSDT'' ''Buy'' (1 / 10) 50000
                        (Some 7) False None 100 True ''lnk_1'' ?s5)
               = SendTradeSuccess ''BTCUSDT'' ''Buy'' (1 / 10) 50000 ''lnk_1'' 100 True False
                 # ClientGetExecutions ''BTCUSDT'' (- 30000) 0
                 # QueryOrder ''lnk_1'' True # trace ?s5"
    unfolding open_succeeded_def wait Let_def
    by (simp add: clock' emit_def add_synced_fill_def truthy_id_def actual_fill_def
          btc50_settings_def plain_settings_def fresh_mgr_def
          buy_world_def[unfolded quiet_world_def])
  show ?thesis
    unfolding first second by (simp add: lev third)
qed

end
